theory Spec2Isabelle
  imports Complex_Main
begin

section \<open>Binary64 floating point\<close>

text \<open>
  The script computes with Python floats and numpy float64 values: IEEE 754 binary64,
  every operation rounded to nearest, ties to even. A finite value is held as the
  rational it denotes; the two infinities and not-a-number are values of their own.
  The sign of zero is not represented (no place of the script distinguishes it).
\<close>

datatype f64 = NaN | PInf | NInf | Fin rat

definition pow2 :: "int \<Rightarrow> rat" where
  "pow2 e = (if 0 \<le> e then 2 ^ nat e else 1 / 2 ^ nat (- e))"

text \<open>Number of binary digits of a positive integer.\<close>

function bitlen :: "int \<Rightarrow> int" where
  "bitlen n = (if n \<le> 0 then 0 else 1 + bitlen (n div 2))"
  by pat_completeness auto
termination
  by (relation "measure nat") auto

declare bitlen.simps [simp del]

text \<open>For \<open>0 < q\<close>, the integer \<open>k\<close> with \<open>2 ^ k \<le> q < 2 ^ (k + 1)\<close>.\<close>

definition ilog2 :: "rat \<Rightarrow> int" where
  "ilog2 q = (if 1 \<le> q then bitlen \<lfloor>q\<rfloor> - 1
              else let k = - bitlen \<lfloor>1 / q\<rfloor> in if pow2 (k + 1) \<le> q then k + 1 else k)"

definition round_half_even :: "rat \<Rightarrow> int" where
  "round_half_even q = (let f = \<lfloor>q\<rfloor>; d = q - of_int f
     in if d < 1 / 2 then f else if 1 / 2 < d then f + 1
        else if even f then f else f + 1)"

text \<open>
  Rounding of an exact result to binary64: 53 significant bits, the unit in the last
  place never below \<open>2 ^ - 1074\<close> (subnormal range), and overflow to an infinity once
  the rounded magnitude reaches \<open>2 ^ 1024\<close>. The rounded significand \<open>m\<close> is at most
  \<open>2 ^ 53\<close>, so \<open>2 ^ 1024 \<le> \<bar>m\<bar> * 2 ^ e\<close> is the test written below (lemma
  \<open>overflow_test\<close>).
\<close>

definition rnd :: "rat \<Rightarrow> f64" where
  "rnd q = (if q = 0 then Fin 0 else
     let e = max (ilog2 \<bar>q\<bar> - 52) (- 1074);
         m = round_half_even (q / pow2 e)
     in if 971 < e \<or> (e = 971 \<and> 2 ^ 53 \<le> \<bar>m\<bar>) then (if q < 0 then NInf else PInf)
        else Fin (of_int m * pow2 e))"

fun fneg :: "f64 \<Rightarrow> f64" where
  "fneg NaN = NaN"
| "fneg PInf = NInf"
| "fneg NInf = PInf"
| "fneg (Fin a) = Fin (- a)"

fun fadd :: "f64 \<Rightarrow> f64 \<Rightarrow> f64" where
  "fadd (Fin a) (Fin b) = rnd (a + b)"
| "fadd NaN y = NaN"
| "fadd x NaN = NaN"
| "fadd PInf NInf = NaN"
| "fadd NInf PInf = NaN"
| "fadd PInf y = PInf"
| "fadd NInf y = NInf"
| "fadd (Fin a) y = y"

definition fsub :: "f64 \<Rightarrow> f64 \<Rightarrow> f64" where
  "fsub x y = fadd x (fneg y)"

fun fmul :: "f64 \<Rightarrow> f64 \<Rightarrow> f64" where
  "fmul (Fin a) (Fin b) = rnd (a * b)"
| "fmul NaN y = NaN"
| "fmul x NaN = NaN"
| "fmul (Fin a) y = (if a = 0 then NaN else if a < 0 then fneg y else y)"
| "fmul x (Fin b) = (if b = 0 then NaN else if b < 0 then fneg x else x)"
| "fmul PInf y = y"
| "fmul NInf y = fneg y"

text \<open>Division as numpy does it: a zero divisor gives an infinity or not-a-number.\<close>

fun fdiv :: "f64 \<Rightarrow> f64 \<Rightarrow> f64" where
  "fdiv (Fin a) (Fin b) =
     (if b = 0 then (if a = 0 then NaN else if a < 0 then NInf else PInf) else rnd (a / b))"
| "fdiv NaN y = NaN"
| "fdiv x NaN = NaN"
| "fdiv (Fin a) y = Fin 0"
| "fdiv PInf (Fin b) = (if b < 0 then NInf else PInf)"
| "fdiv NInf (Fin b) = (if b < 0 then PInf else NInf)"
| "fdiv x y = NaN"

text \<open>\<open>x > y\<close> on floats: false as soon as one side is not-a-number.\<close>

fun fgt :: "f64 \<Rightarrow> f64 \<Rightarrow> bool" where
  "fgt (Fin a) (Fin b) = (b < a)"
| "fgt NaN y = False"
| "fgt x NaN = False"
| "fgt NInf y = False"
| "fgt x PInf = False"
| "fgt x y = True"

section \<open>Python values and operators\<close>

text \<open>
  The values the script's helpers can be handed: \<open>None\<close>, a Python int (unbounded),
  a float, a string (the non-numeric value a column of objects may hold), and a
  \<open>list\<close> or \<open>np.ndarray\<close> of such scalars. A \<open>pd.Series\<close> has row labels and is read
  by label; it comes with the price tables below.
\<close>

datatype scalar = PyNone | PyInt int | PyFloat f64 | PyStr string

datatype pyval = Scalar scalar | Seq "scalar list"

datatype exn = TypeError | ValueError | KeyError | IndexError | OverflowError | ZeroDivisionError

fun is_num :: "scalar \<Rightarrow> bool" where
  "is_num (PyInt i) = True"
| "is_num (PyFloat x) = True"
| "is_num v = False"

text \<open>\<open>float(i)\<close> for an int: correctly rounded, OverflowError beyond the float range.\<close>

definition int_to_float :: "int \<Rightarrow> exn + f64" where
  "int_to_float i = (case rnd (of_int i) of Fin r \<Rightarrow> Inr (Fin r) | _ \<Rightarrow> Inl OverflowError)"

fun as_float :: "scalar \<Rightarrow> exn + f64" where
  "as_float (PyInt i) = int_to_float i"
| "as_float (PyFloat x) = Inr x"
| "as_float v = Inl TypeError"

text \<open>
  \<open>a / b\<close> on scalars. Two ints divide exactly and round once; otherwise an int
  operand is converted first. A non-numeric operand raises TypeError. A zero divisor
  raises ZeroDivisionError, as Python's own numbers do (numpy scalars divide by
  \<open>np_truediv\<close> below).
\<close>

fun py_truediv :: "scalar \<Rightarrow> scalar \<Rightarrow> exn + scalar" where
  "py_truediv (PyInt a) (PyInt b) =
     (if b = 0 then Inl ZeroDivisionError
      else case rnd (of_int a / of_int b) of
             Fin r \<Rightarrow> Inr (PyFloat (Fin r))
           | _ \<Rightarrow> Inl OverflowError)"
| "py_truediv a b =
     (if \<not> (is_num a \<and> is_num b) then Inl TypeError
      else case as_float a of
             Inl e \<Rightarrow> Inl e
           | Inr x \<Rightarrow> (case as_float b of
                         Inl e \<Rightarrow> Inl e
                       | Inr y \<Rightarrow> if y = Fin 0 then Inl ZeroDivisionError
                                  else Inr (PyFloat (fdiv x y))))"

fun py_sub :: "scalar \<Rightarrow> scalar \<Rightarrow> exn + scalar" where
  "py_sub (PyInt a) (PyInt b) = Inr (PyInt (a - b))"
| "py_sub a b =
     (if \<not> (is_num a \<and> is_num b) then Inl TypeError
      else case as_float a of
             Inl e \<Rightarrow> Inl e
           | Inr x \<Rightarrow> (case as_float b of
                         Inl e \<Rightarrow> Inl e
                       | Inr y \<Rightarrow> Inr (PyFloat (fsub x y))))"

fun py_mul :: "scalar \<Rightarrow> scalar \<Rightarrow> exn + scalar" where
  "py_mul (PyInt a) (PyInt b) = Inr (PyInt (a * b))"
| "py_mul (PyStr s) (PyInt n) = Inr (PyStr (concat (replicate (nat n) s)))"
| "py_mul (PyInt n) (PyStr s) = Inr (PyStr (concat (replicate (nat n) s)))"
| "py_mul a b =
     (if \<not> (is_num a \<and> is_num b) then Inl TypeError
      else case as_float a of
             Inl e \<Rightarrow> Inl e
           | Inr x \<Rightarrow> (case as_float b of
                         Inl e \<Rightarrow> Inl e
                       | Inr y \<Rightarrow> Inr (PyFloat (fmul x y))))"

text \<open>\<open>v > t\<close> for a float \<open>t\<close>: an int is compared exactly, a non-number raises.\<close>

fun py_gt :: "scalar \<Rightarrow> f64 \<Rightarrow> exn + bool" where
  "py_gt (PyInt i) t = Inr (fgt (Fin (of_int i)) t)"
| "py_gt (PyFloat x) t = Inr (fgt x t)"
| "py_gt v t = Inl TypeError"

text \<open>\<open>pd.isna\<close> and \<open>pd.notna\<close> on a scalar.\<close>

fun isna :: "scalar \<Rightarrow> bool" where
  "isna PyNone = True"
| "isna (PyFloat NaN) = True"
| "isna v = False"

definition notna :: "scalar \<Rightarrow> bool" where
  "notna v = (\<not> isna v)"

text \<open>
  \<open>np.isclose(x, 0)\<close> with numpy's defaults is \<open>\<bar>x - 0\<bar> \<le> atol + rtol * \<bar>0\<bar>\<close>, that is
  \<open>\<bar>x\<bar> \<le> atol\<close>, where \<open>atol\<close> is the float written \<open>1e-8\<close>. A non-number raises TypeError.
\<close>

definition atol :: rat where
  "atol = 3022314549036573 / 2 ^ 78"

fun np_isclose_zero :: "scalar \<Rightarrow> exn + bool" where
  "np_isclose_zero (PyInt i) = Inr (\<bar>of_int i\<bar> \<le> atol)"
| "np_isclose_zero (PyFloat (Fin q)) = Inr (\<bar>q\<bar> \<le> atol)"
| "np_isclose_zero (PyFloat x) = Inr False"
| "np_isclose_zero v = Inl TypeError"

section \<open>Text of numbers\<close>

definition digit :: "int \<Rightarrow> char" where
  "digit d = ''0123456789'' ! nat d"

function show_nat :: "int \<Rightarrow> string" where
  "show_nat n = (if n < 10 then [digit n] else show_nat (n div 10) @ [digit (n mod 10)])"
  by pat_completeness auto
termination
  by (relation "measure nat") auto

declare show_nat.simps [simp del]

definition show_int :: "int \<Rightarrow> string" where
  "show_int i = (if i < 0 then ''-'' @ show_nat (- i) else show_nat i)"

text \<open>
  The format \<open>.2f\<close> of a float: the exact value rounded to hundredths (ties to even),
  with a sign, the integer digits, a point and two decimals.
\<close>

fun format_2f :: "f64 \<Rightarrow> string" where
  "format_2f NaN = ''nan''"
| "format_2f PInf = ''inf''"
| "format_2f NInf = ''-inf''"
| "format_2f (Fin q) =
     (let n = round_half_even (\<bar>q\<bar> * 100)
      in (if q < 0 then ''-'' else '''') @ show_nat (n div 100) @ ''.'' @
         [digit (n mod 100 div 10), digit (n mod 10)])"

fun py_format_2f :: "scalar \<Rightarrow> exn + string" where
  "py_format_2f (PyFloat x) = Inr (format_2f x)"
| "py_format_2f (PyInt i) = (case int_to_float i of Inl e \<Rightarrow> Inl e | Inr x \<Rightarrow> Inr (format_2f x))"
| "py_format_2f (PyStr s) = Inl ValueError"
| "py_format_2f PyNone = Inl TypeError"

text \<open>
  \<open>str(v)\<close>. The text of a finite float is its shortest decimal that reads back as
  the same float; that conversion belongs to the language, and is the parameter
  \<open>float_repr\<close>.
\<close>

fun py_str :: "(rat \<Rightarrow> string) \<Rightarrow> scalar \<Rightarrow> string" where
  "py_str float_repr PyNone = ''None''"
| "py_str float_repr (PyInt i) = show_int i"
| "py_str float_repr (PyFloat (Fin q)) = float_repr q"
| "py_str float_repr (PyFloat NaN) = ''nan''"
| "py_str float_repr (PyFloat PInf) = ''inf''"
| "py_str float_repr (PyFloat NInf) = ''-inf''"
| "py_str float_repr (PyStr s) = s"

section \<open>The helpers of the script\<close>

text \<open>
  \<^verbatim>\<open>def safe_scalar(val):
    if isinstance(val, (pd.Series, np.ndarray, list)):
        if len(val) > 0: return val[0]
        else: return np.nan
    return val\<close>
  On a \<open>list\<close> or an \<open>np.ndarray\<close>, \<open>val[0]\<close> is the first element. On a \<open>pd.Series\<close>
  it is a lookup of the label 0, which can raise: that case is \<open>safe_scalar_series\<close>
  below.
\<close>

fun safe_scalar :: "pyval \<Rightarrow> scalar" where
  "safe_scalar (Seq []) = PyFloat NaN"
| "safe_scalar (Seq (x # xs)) = x"
| "safe_scalar (Scalar v) = v"

text \<open>
  \<^verbatim>\<open>def format_mcap(val):
    val = safe_scalar(val)
    if pd.isna(val): return "NA"
    if val > 1e12: return f"{val/1e12:.2f} T"
    elif val > 1e9: return f"{val/1e9:.2f} B"
    elif val > 1e6: return f"{val/1e6:.2f} M"
    else: return str(val)\<close>
  \<open>scaled val unit suffix\<close> is one of the three f-strings: the quotient \<open>val / unit\<close>
  in the format \<open>.2f\<close>, then the suffix.
\<close>

definition scaled :: "scalar \<Rightarrow> rat \<Rightarrow> string \<Rightarrow> exn + string" where
  "scaled val unit suffix =
     (case py_truediv val (PyFloat (Fin unit)) of
        Inl e \<Rightarrow> Inl e
      | Inr q \<Rightarrow> (case py_format_2f q of Inl e \<Rightarrow> Inl e | Inr s \<Rightarrow> Inr (s @ suffix)))"

definition format_mcap :: "(rat \<Rightarrow> string) \<Rightarrow> pyval \<Rightarrow> exn + string" where
  "format_mcap float_repr val0 =
     (let val = safe_scalar val0 in
      if isna val then Inr ''NA''
      else case py_gt val (Fin (10 ^ 12)) of
        Inl e \<Rightarrow> Inl e
      | Inr True \<Rightarrow> scaled val (10 ^ 12) '' T''
      | Inr False \<Rightarrow>
         (case py_gt val (Fin (10 ^ 9)) of
            Inl e \<Rightarrow> Inl e
          | Inr True \<Rightarrow> scaled val (10 ^ 9) '' B''
          | Inr False \<Rightarrow>
             (case py_gt val (Fin (10 ^ 6)) of
                Inl e \<Rightarrow> Inl e
              | Inr True \<Rightarrow> scaled val (10 ^ 6) '' M''
              | Inr False \<Rightarrow> Inr (py_str float_repr val))))"

section \<open>Price tables and the return over the window\<close>

text \<open>
  A \<open>DataFrame\<close> is its row labels (the index) and its columns, each a name and its
  entries, one per row. A label is an integer (a default \<open>RangeIndex\<close>, or any integer
  index) or a date (the \<open>DatetimeIndex\<close> of a price history). A column of dtype float64
  or int64 hands out its entries as numpy scalars; a column of dtype object holds
  Python objects (numbers, strings, \<open>None\<close>).
\<close>

datatype label = IntLabel int | DateLabel nat

datatype column = Float64 "f64 list" | Int64 "int list" | Object "scalar list"

fun entries :: "column \<Rightarrow> scalar list" where
  "entries (Float64 xs) = map PyFloat xs"
| "entries (Int64 xs) = map PyInt xs"
| "entries (Object xs) = xs"

fun is_numpy :: "column \<Rightarrow> bool" where
  "is_numpy (Object xs) = False"
| "is_numpy c = True"

record dataframe =
  index :: "label list"
  columns :: "(string \<times> column) list"

text \<open>A \<open>pd.Series\<close>: its rows in order, each a label and a value.\<close>

type_synonym 'a series = "(label \<times> 'a) list"

text \<open>
  \<open>df.empty\<close> holds when there is no row or no column; \<open>df[name]\<close> raises KeyError when
  no column has that name, and is otherwise the column with the row labels of the table.
\<close>

definition df_empty :: "dataframe \<Rightarrow> bool" where
  "df_empty df = (index df = [] \<or> columns df = [])"

definition getitem :: "dataframe \<Rightarrow> string \<Rightarrow> exn + column" where
  "getitem df name = (case map_of (columns df) name of None \<Rightarrow> Inl KeyError | Some col \<Rightarrow> Inr col)"

definition series_of :: "dataframe \<Rightarrow> column \<Rightarrow> scalar series" where
  "series_of df col = zip (index df) (entries col)"

definition dropna :: "scalar series \<Rightarrow> scalar series" where
  "dropna series = filter (\<lambda>(l, v). notna v) series"

text \<open>
  \<open>series.iloc[[i]]\<close>: the one-row series at position \<open>i\<close>, counted from the end when
  \<open>i\<close> is negative; IndexError outside the series. The row keeps its label.
\<close>

definition iloc :: "'a series \<Rightarrow> int \<Rightarrow> exn + label \<times> 'a" where
  "iloc xs i =
     (if 0 \<le> i
      then (if i < int (length xs) then Inr (xs ! nat i) else Inl IndexError)
      else (if - int (length xs) \<le> i then Inr (xs ! (length xs - nat (- i)))
            else Inl IndexError))"

text \<open>
  \<open>safe_scalar\<close> on a \<open>pd.Series\<close>. The script hands it a series only as the one-row
  selection \<open>series.iloc[[i]]\<close>, so \<open>len(val) > 0\<close> holds and the result is \<open>val[0]\<close>.
  On a series, \<open>val[0]\<close> looks the key 0 up among the row labels: on an integer index
  it is the row labelled 0, and KeyError when the row has another label; on a date
  index pandas before 3.0 takes the key as a position (\<open>positional\<close>, the first row),
  and pandas from 3.0 on raises KeyError.
\<close>

fun safe_scalar_series :: "bool \<Rightarrow> label \<times> scalar \<Rightarrow> exn + scalar" where
  "safe_scalar_series positional (IntLabel i, v) = (if i = 0 then Inr v else Inl KeyError)"
| "safe_scalar_series positional (DateLabel d, v) = (if positional then Inr v else Inl KeyError)"

text \<open>
  The test \<^verbatim>\<open>pd.notna(v) and not np.isclose(v, 0)\<close>; \<open>and\<close> evaluates its right side
  only when the left one holds.
\<close>

definition notna_and_not_close :: "scalar \<Rightarrow> exn + bool" where
  "notna_and_not_close v =
     (if notna v then (case np_isclose_zero v of Inl e \<Rightarrow> Inl e | Inr c \<Rightarrow> Inr (\<not> c))
      else Inr False)"

text \<open>
  \<open>a / b\<close> on two numpy scalars (entries of a float64 or int64 column): each operand is
  converted to float64, and the quotient is the float one; a zero divisor gives an
  infinity or not-a-number, and nothing is raised for numbers.
\<close>

definition np_truediv :: "scalar \<Rightarrow> scalar \<Rightarrow> exn + scalar" where
  "np_truediv a b =
     (if \<not> (is_num a \<and> is_num b) then Inl TypeError
      else case as_float a of
             Inl e \<Rightarrow> Inl e
           | Inr x \<Rightarrow> (case as_float b of
                         Inl e \<Rightarrow> Inl e
                       | Inr y \<Rightarrow> Inr (PyFloat (fdiv x y))))"

text \<open>\<open>/\<close> on two entries of a column: numpy's for a numeric dtype, Python's for objects.\<close>

definition truediv :: "bool \<Rightarrow> scalar \<Rightarrow> scalar \<Rightarrow> exn + scalar" where
  "truediv numpy a b = (if numpy then np_truediv a b else py_truediv a b)"

text \<open>
  \<^verbatim>\<open>def compute_returns(df):
    if df.empty: return np.nan
    series = df["Close"].dropna()
    if series.empty: return np.nan
    start_val = safe_scalar(series.iloc[[0]])
    end_val = safe_scalar(series.iloc[[-1]])
    if pd.notna(start_val) and not np.isclose(start_val, 0):
        try: return (end_val / start_val - 1) * 100.0
        except Exception: return np.nan
    return np.nan\<close>
  Both calls of \<open>safe_scalar\<close> come before the test and before \<open>try\<close>. The operator \<open>/\<close>
  is looked up on its operands when the line runs; the model takes it as the argument
  \<open>dv\<close> (told whether the operands are numpy scalars), and \<open>compute_returns\<close> is the
  function with \<open>truediv\<close>.
\<close>

definition return_percent ::
  "(scalar \<Rightarrow> scalar \<Rightarrow> exn + scalar) \<Rightarrow> scalar \<Rightarrow> scalar \<Rightarrow> exn + scalar" where
  "return_percent dv end_val start_val =
     (case dv end_val start_val of
        Inl e \<Rightarrow> Inl e
      | Inr q \<Rightarrow> (case py_sub q (PyInt 1) of
                    Inl e \<Rightarrow> Inl e
                  | Inr d \<Rightarrow> py_mul d (PyFloat (Fin 100))))"

definition compute_returns_with ::
  "(bool \<Rightarrow> scalar \<Rightarrow> scalar \<Rightarrow> exn + scalar) \<Rightarrow> bool \<Rightarrow> dataframe \<Rightarrow> exn + scalar" where
  "compute_returns_with dv positional df =
     (if df_empty df then Inr (PyFloat NaN)
      else case getitem df ''Close'' of
        Inl e \<Rightarrow> Inl e
      | Inr col \<Rightarrow>
         (let series = dropna (series_of df col) in
          if series = [] then Inr (PyFloat NaN)
          else case iloc series 0 of
            Inl e \<Rightarrow> Inl e
          | Inr first \<Rightarrow>
             (case safe_scalar_series positional first of
                Inl e \<Rightarrow> Inl e
              | Inr start_val \<Rightarrow>
                 (case iloc series (- 1) of
                    Inl e \<Rightarrow> Inl e
                  | Inr final \<Rightarrow>
                     (case safe_scalar_series positional final of
                        Inl e \<Rightarrow> Inl e
                      | Inr end_val \<Rightarrow>
                         (case notna_and_not_close start_val of
                            Inl e \<Rightarrow> Inl e
                          | Inr True \<Rightarrow>
                             (case return_percent (dv (is_numpy col)) end_val start_val of
                                Inl e \<Rightarrow> Inr (PyFloat NaN)
                              | Inr r \<Rightarrow> Inr r)
                          | Inr False \<Rightarrow> Inr (PyFloat NaN)))))))"

definition compute_returns :: "bool \<Rightarrow> dataframe \<Rightarrow> exn + scalar" where
  "compute_returns positional df = compute_returns_with truediv positional df"

section \<open>The chart loop\<close>

text \<open>
  \<open>pd.to_numeric(series, errors="coerce")\<close> on one entry: a number stays, a string
  that reads as a number becomes it, anything else becomes not-a-number. Reading a
  string is pandas' parser, the parameter \<open>parse\<close>. The result is held as floats (an
  all-integer column keeps integers in pandas, with the same values). The rows keep
  their labels, and \<open>dropna\<close> removes the rows that hold not-a-number.
\<close>

fun to_numeric :: "(string \<Rightarrow> f64 option) \<Rightarrow> scalar \<Rightarrow> f64" where
  "to_numeric parse PyNone = NaN"
| "to_numeric parse (PyInt i) = rnd (of_int i)"
| "to_numeric parse (PyFloat x) = x"
| "to_numeric parse (PyStr s) = (case parse s of None \<Rightarrow> NaN | Some x \<Rightarrow> x)"

definition to_numeric_series :: "(string \<Rightarrow> f64 option) \<Rightarrow> scalar series \<Rightarrow> f64 series" where
  "to_numeric_series parse series = map (\<lambda>(l, v). (l, to_numeric parse v)) series"

definition dropna_f :: "f64 series \<Rightarrow> f64 series" where
  "dropna_f series = filter (\<lambda>(l, x). x \<noteq> NaN) series"

text \<open>\<open>series / base\<close> and \<open>series * c\<close>, entry by entry on a float series.\<close>

fun series_truediv :: "f64 series \<Rightarrow> scalar \<Rightarrow> exn + f64 series" where
  "series_truediv xs (PyFloat b) = Inr (map (\<lambda>(l, v). (l, fdiv v b)) xs)"
| "series_truediv xs (PyInt i) =
     (case int_to_float i of
        Inl e \<Rightarrow> Inl e
      | Inr b \<Rightarrow> Inr (map (\<lambda>(l, v). (l, fdiv v b)) xs))"
| "series_truediv xs v = Inl TypeError"

definition series_mul :: "f64 series \<Rightarrow> f64 \<Rightarrow> f64 series" where
  "series_mul xs c = map (\<lambda>(l, v). (l, fmul v c)) xs"

text \<open>
  The branch on the chart type (the label of the y axis, and the series to draw):
  \<^verbatim>\<open>if chart_type == "Relative Price":
    base = safe_scalar(series.iloc[[0]])
    if pd.notna(base) and not np.isclose(base, 0):
        series = (series / base) * 100.0
    ax.set_ylabel("Relative Price (%)")
else:
    ax.set_ylabel("Actual Price")\<close>
\<close>

definition rebase :: "bool \<Rightarrow> f64 series \<Rightarrow> exn + f64 series" where
  "rebase positional series =
     (case iloc series 0 of
        Inl e \<Rightarrow> Inl e
      | Inr (l, b) \<Rightarrow>
         (case safe_scalar_series positional (l, PyFloat b) of
            Inl e \<Rightarrow> Inl e
          | Inr base \<Rightarrow>
             (case notna_and_not_close base of
                Inl e \<Rightarrow> Inl e
              | Inr True \<Rightarrow> (case series_truediv series base of
                               Inl e \<Rightarrow> Inl e
                             | Inr ys \<Rightarrow> Inr (series_mul ys (Fin 100)))
              | Inr False \<Rightarrow> Inr series)))"

definition chart_series :: "bool \<Rightarrow> string \<Rightarrow> f64 series \<Rightarrow> exn + (string \<times> f64 series)" where
  "chart_series positional chart_type series =
     (if chart_type = ''Relative Price''
      then (case rebase positional series of
              Inl e \<Rightarrow> Inl e
            | Inr ys \<Rightarrow> Inr (''Relative Price (%)'', ys))
      else Inr (''Actual Price'', series))"

text \<open>
  The figure and the page as the loop changes them: the lines drawn with their legend
  labels, the label of the y axis, and the error boxes written by \<open>st.error\<close>.
\<close>

record chart =
  lines :: "(string \<times> f64 series) list"
  ylabel :: string
  errors :: "(string \<times> exn) list"

definition new_chart :: chart where
  "new_chart = \<lparr>lines = [], ylabel = [], errors = []\<rparr>"

definition st_error :: "string \<Rightarrow> exn \<Rightarrow> chart \<Rightarrow> chart" where
  "st_error s e c = c\<lparr>errors := errors c @ [(s, e)]\<rparr>"

text \<open>
  One round of the loop over \<open>histories.items()\<close>:
  \<^verbatim>\<open>try:
    series = df["Close"]
    if isinstance(series, (pd.Series, np.ndarray, list)):
        series = pd.to_numeric(series, errors="coerce").dropna()
    else:
        series = pd.Series([series]).dropna()
    if series.empty: continue
    ...the branch on the chart type...
    series.plot(ax=ax, label=s)
except Exception as e:
    st.error(f"Error plotting {s}: {e}\n{traceback.format_exc()}")\<close>
  A column of a table is a \<open>pd.Series\<close>, so the first branch of \<open>isinstance\<close> is the
  one taken. Drawing belongs to matplotlib: \<open>plot s series\<close> is the exception it
  raises, if any.
\<close>

definition plot_ticker ::
  "(string \<Rightarrow> f64 series \<Rightarrow> exn option) \<Rightarrow> (string \<Rightarrow> f64 option) \<Rightarrow> bool \<Rightarrow> string \<Rightarrow>
   chart \<Rightarrow> string \<times> dataframe \<Rightarrow> chart" where
  "plot_ticker plot parse positional chart_type c h =
     (case h of (s, df) \<Rightarrow>
        (case getitem df ''Close'' of
           Inl e \<Rightarrow> st_error s e c
         | Inr col \<Rightarrow>
            (let series = dropna_f (to_numeric_series parse (series_of df col)) in
             if series = [] then c
             else case chart_series positional chart_type series of
                    Inl e \<Rightarrow> st_error s e c
                  | Inr (label, ys) \<Rightarrow>
                     (let c1 = c\<lparr>ylabel := label\<rparr>
                      in case plot s ys of
                           Some e \<Rightarrow> st_error s e c1
                         | None \<Rightarrow> c1\<lparr>lines := lines c1 @ [(s, ys)]\<rparr>))))"

definition chart_loop ::
  "(string \<Rightarrow> f64 series \<Rightarrow> exn option) \<Rightarrow> (string \<Rightarrow> f64 option) \<Rightarrow> bool \<Rightarrow> string \<Rightarrow>
   chart \<Rightarrow> (string \<times> dataframe) list \<Rightarrow> chart" where
  "chart_loop plot parse positional chart_type c histories =
     foldl (plot_ticker plot parse positional chart_type) c histories"

section \<open>Facts about rounding\<close>

lemma bitlen_one: "bitlen 1 = 1"
proof -
  have "bitlen 1 = 1 + bitlen 0" by (subst bitlen.simps) simp
  also have "bitlen 0 = 0" by (subst bitlen.simps) simp
  finally show ?thesis by simp
qed

lemma bitlen_step: "0 < n \<Longrightarrow> bitlen n = 1 + bitlen (n div 2)"
  by (subst bitlen.simps) simp

lemma bitlen_pos: "0 < n \<Longrightarrow> 0 < bitlen n"
proof (induction n rule: bitlen.induct)
  case (1 n)
  show ?case
  proof (cases "n = 1")
    case True
    then show ?thesis by (simp add: bitlen_one)
  next
    case False
    with "1.prems" have h: "0 < n div 2" by simp
    then have "0 < bitlen (n div 2)" using "1.IH" "1.prems" by simp
    then show ?thesis using bitlen_step [OF "1.prems"] by simp
  qed
qed

lemma bitlen_bounds: "0 < n \<Longrightarrow> 2 ^ nat (bitlen n - 1) \<le> n \<and> n < 2 ^ nat (bitlen n)"
proof (induction n rule: bitlen.induct)
  case (1 n)
  show ?case
  proof (cases "n = 1")
    case True
    then show ?thesis by (simp add: bitlen_one)
  next
    case False
    with "1.prems" have h: "0 < n div 2" by simp
    have ih: "2 ^ nat (bitlen (n div 2) - 1) \<le> n div 2 \<and> n div 2 < 2 ^ nat (bitlen (n div 2))"
      using "1.IH" "1.prems" h by simp
    have bl: "bitlen n = 1 + bitlen (n div 2)"
      by (rule bitlen_step [OF "1.prems"])
    have pos: "0 < bitlen (n div 2)"
      by (rule bitlen_pos [OF h])
    then have e1: "nat (bitlen n - 1) = Suc (nat (bitlen (n div 2) - 1))"
      using bl by simp
    have e2: "nat (bitlen n) = Suc (nat (bitlen (n div 2)))"
      using bl pos by simp
    have lo: "2 * 2 ^ nat (bitlen (n div 2) - 1) \<le> n"
      using ih by linarith
    have "n div 2 + 1 \<le> 2 ^ nat (bitlen (n div 2))"
      using ih by simp
    then have hi: "n < 2 * 2 ^ nat (bitlen (n div 2))"
      by linarith
    show ?thesis
      using lo hi by (simp add: e1 e2)
  qed
qed


lemma pow2_pos: "0 < pow2 e"
  by (simp add: pow2_def)

lemma pow2_Suc: "pow2 (e + 1) = 2 * pow2 e"
proof (cases "0 \<le> e")
  case True
  then have "nat (e + 1) = Suc (nat e)" by simp
  then show ?thesis using True by (simp add: pow2_def)
next
  case False
  then have "nat (- e) = Suc (nat (- (e + 1)))" by simp
  then show ?thesis using False by (simp add: pow2_def)
qed

lemma pow2_nonneg: "0 \<le> e \<Longrightarrow> pow2 e = of_int (2 ^ nat e)"
  by (simp add: pow2_def)

lemma ilog2_bounds:
  assumes "0 < q"
  shows "pow2 (ilog2 q) \<le> q \<and> q < pow2 (ilog2 q + 1)"
proof (cases "1 \<le> q")
  case True
  define n where "n = \<lfloor>q\<rfloor>"
  have n1: "1 \<le> n" using True by (simp add: n_def le_floor_iff)
  then have bb: "2 ^ nat (bitlen n - 1) \<le> n \<and> n < 2 ^ nat (bitlen n)"
    using bitlen_bounds [of n] by simp
  have bp: "0 < bitlen n" using bitlen_pos [of n] n1 by simp
  have il: "ilog2 q = bitlen n - 1" using True by (simp add: ilog2_def n_def)
  have "pow2 (bitlen n - 1) = of_int (2 ^ nat (bitlen n - 1))"
    using bp by (simp add: pow2_nonneg)
  also have "\<dots> \<le> of_int n" using bb by (simp only: of_int_le_iff)
  also have "\<dots> \<le> q" by (simp add: n_def)
  finally have lo: "pow2 (ilog2 q) \<le> q" by (simp add: il)
  have "q < of_int (n + 1)" using floor_correct [of q] by (simp add: n_def)
  also have "\<dots> \<le> of_int (2 ^ nat (bitlen n))"
    using bb by (simp only: of_int_le_iff) simp
  also have "\<dots> = pow2 (bitlen n)" using bp by (simp add: pow2_nonneg)
  finally have hi: "q < pow2 (ilog2 q + 1)" by (simp add: il)
  from lo hi show ?thesis by simp
next
  case False
  define n where "n = \<lfloor>1 / q\<rfloor>"
  define L where "L = bitlen n"
  have "1 \<le> 1 / q" using False assms by simp
  then have n1: "1 \<le> n" by (simp add: n_def le_floor_iff)
  then have bb: "2 ^ nat (L - 1) \<le> n \<and> n < 2 ^ nat L"
    using bitlen_bounds [of n] by (simp add: L_def)
  have bp: "0 < L" using bitlen_pos [of n] n1 by (simp add: L_def)
  have a: "(2 :: rat) ^ nat (L - 1) \<le> 1 / q"
  proof -
    have "(2 :: rat) ^ nat (L - 1) = of_int (2 ^ nat (L - 1))" by simp
    also have "\<dots> \<le> of_int n" using bb by (simp only: of_int_le_iff)
    also have "\<dots> \<le> 1 / q" by (simp add: n_def)
    finally show ?thesis .
  qed
  have b: "1 / q < (2 :: rat) ^ nat L"
  proof -
    have "1 / q < of_int (n + 1)" using floor_correct [of "1 / q"] by (simp add: n_def)
    also have "\<dots> \<le> of_int (2 ^ nat L)"
      using bb by (simp only: of_int_le_iff) simp
    finally show ?thesis by simp
  qed
  have pk: "pow2 (- L) = 1 / 2 ^ nat L"
    using bp by (simp add: pow2_def)
  have pk1: "pow2 (- L + 1) = 1 / 2 ^ nat (L - 1)"
  proof (cases "L = 1")
    case True
    then show ?thesis by (simp add: pow2_def)
  next
    case False
    then have "\<not> 0 \<le> - L + 1" using bp by simp
    moreover have "nat (- (- L + 1)) = nat (L - 1)" by simp
    ultimately show ?thesis by (simp add: pow2_def)
  qed
  have lo: "pow2 (- L) < q"
  proof -
    have "1 / 2 ^ nat L < q" using b assms by (simp add: field_simps)
    then show ?thesis by (simp only: pk)
  qed
  have hi: "q \<le> pow2 (- L + 1)"
  proof -
    have "q \<le> 1 / 2 ^ nat (L - 1)" using a assms by (simp add: field_simps)
    then show ?thesis by (simp only: pk1)
  qed
  show ?thesis
  proof (cases "pow2 (- L + 1) \<le> q")
    case True
    then have il: "ilog2 q = - L + 1"
      using False by (simp add: ilog2_def n_def L_def Let_def)
    have "pow2 (- L + 1 + 1) = 2 * pow2 (- L + 1)"
      by (rule pow2_Suc)
    then have "pow2 (- L + 1) < pow2 (- L + 1 + 1)"
      using pow2_pos [of "- L + 1"] by linarith
    moreover have "q = pow2 (- L + 1)"
      using True hi by simp
    ultimately have "pow2 (- L + 1) \<le> q \<and> q < pow2 (- L + 1 + 1)"
      by simp
    then show ?thesis by (simp only: il)
  next
    case F: False
    then have il: "ilog2 q = - L"
      using False by (simp add: ilog2_def n_def L_def Let_def)
    show ?thesis using lo F by (simp only: il) simp
  qed
qed


lemma pow2_powi: "pow2 e = power_int 2 e"
  by (simp add: pow2_def power_int_def inverse_eq_divide power_one_over)

lemma pow2_add: "pow2 (a + b) = pow2 a * pow2 b"
  by (simp add: pow2_powi power_int_add)

lemma pow2_mono: "a \<le> b \<Longrightarrow> pow2 a \<le> pow2 b"
  by (simp add: pow2_powi power_int_increasing)

lemma pow2_nat: "pow2 (int n) = 2 ^ n"
  by (simp add: pow2_def)

lemma round_half_even_close: "\<bar>of_int (round_half_even q) - q\<bar> \<le> 1 / 2"
proof -
  define f where "f = \<lfloor>q\<rfloor>"
  have b: "of_int f \<le> q" "q < of_int f + 1"
    using floor_correct [of q] by (simp_all add: f_def)
  have r: "round_half_even q =
             (if q - of_int f < 1 / 2 then f else if 1 / 2 < q - of_int f then f + 1
              else if even f then f else f + 1)"
    by (simp add: round_half_even_def Let_def f_def)
  show ?thesis
    using b by (simp add: r abs_if)
qed

lemma round_half_even_mono: "of_int n \<le> q \<Longrightarrow> n \<le> round_half_even q"
proof -
  assume "of_int n \<le> q"
  then have "n \<le> \<lfloor>q\<rfloor>" by (simp add: le_floor_iff)
  then show ?thesis
    by (auto simp: round_half_even_def Let_def)
qed

lemma round_half_even_le: "q \<le> of_int n \<Longrightarrow> round_half_even q \<le> n"
proof -
  assume h: "q \<le> of_int n"
  show ?thesis
  proof (cases "q = of_int n")
    case True
    then show ?thesis by (simp add: round_half_even_def)
  next
    case False
    with h have "q < of_int n" by simp
    then have "\<lfloor>q\<rfloor> < n" by (simp add: floor_less_iff)
    then show ?thesis
      by (auto simp: round_half_even_def Let_def)
  qed
qed


lemma significand_bounds:
  assumes "q \<noteq> 0"
    and "e = max (ilog2 \<bar>q\<bar> - 52) (- 1074)"
    and "m = round_half_even (q / pow2 e)"
  shows "\<bar>m\<bar> \<le> 2 ^ 53" and "- 1074 < e \<Longrightarrow> 2 ^ 52 \<le> \<bar>m\<bar>"
    and "\<bar>of_int m * pow2 e - q\<bar> \<le> pow2 e / 2"
proof -
  define x where "x = q / pow2 e"
  have pe: "0 < pow2 e" by (rule pow2_pos)
  have q0: "0 < \<bar>q\<bar>" using assms(1) by simp
  have ax: "\<bar>x\<bar> = \<bar>q\<bar> / pow2 e"
    by (simp only: x_def abs_divide abs_of_pos [OF pe])
  have "\<bar>q\<bar> < pow2 (ilog2 \<bar>q\<bar> + 1)"
    using ilog2_bounds [OF q0] by simp
  also have "\<dots> \<le> pow2 (e + 53)"
    by (rule pow2_mono) (simp add: assms(2))
  also have "\<dots> = pow2 e * 2 ^ 53"
    using pow2_add [of e 53] pow2_nat [of 53] by simp
  finally have "\<bar>x\<bar> < 2 ^ 53"
    using pe by (simp add: ax field_simps)
  then have "x \<le> of_int (2 ^ 53)" and "of_int (- (2 ^ 53)) \<le> x"
    by (simp_all add: abs_if split: if_splits)
  then have "m \<le> 2 ^ 53" and "- (2 ^ 53) \<le> m"
    using round_half_even_le [of x "2 ^ 53"] round_half_even_mono [of "- (2 ^ 53)" x]
    by (simp_all only: assms(3) x_def)
  then show "\<bar>m\<bar> \<le> 2 ^ 53" by simp
  show "2 ^ 52 \<le> \<bar>m\<bar>" if "- 1074 < e"
  proof -
    from that have ee: "e = ilog2 \<bar>q\<bar> - 52"
      using assms(2) by simp
    have "pow2 e * 2 ^ 52 = pow2 (e + 52)"
      using pow2_add [of e 52] pow2_nat [of 52] by simp
    also have "\<dots> \<le> \<bar>q\<bar>"
      using ilog2_bounds [OF q0] by (simp add: ee)
    finally have lo: "2 ^ 52 \<le> \<bar>x\<bar>"
      using pe by (simp add: ax field_simps)
    show ?thesis
    proof (cases "0 \<le> x")
      case True
      then have "of_int (2 ^ 52) \<le> x" using lo by simp
      then have "2 ^ 52 \<le> m"
        using round_half_even_mono [of "2 ^ 52" x] by (simp only: assms(3) x_def)
      then show ?thesis by simp
    next
      case False
      then have "x \<le> of_int (- (2 ^ 52))" using lo by simp
      then have "m \<le> - (2 ^ 52)"
        using round_half_even_le [of x "- (2 ^ 52)"] by (simp only: assms(3) x_def)
      then show ?thesis by simp
    qed
  qed
  have "\<bar>of_int m - x\<bar> \<le> 1 / 2"
    using round_half_even_close [of x] by (simp only: assms(3) x_def)
  then have "\<bar>of_int m - x\<bar> * pow2 e \<le> 1 / 2 * pow2 e"
    using pe by (simp only: mult_le_cancel_right) simp
  moreover have "\<bar>of_int m - x\<bar> * pow2 e = \<bar>of_int m * pow2 e - q\<bar>"
  proof -
    have "\<bar>of_int m - x\<bar> * pow2 e = \<bar>(of_int m - x) * pow2 e\<bar>"
      using pe by (simp add: abs_mult)
    also have "(of_int m - x) * pow2 e = of_int m * pow2 e - q"
      using pe by (simp add: x_def field_simps)
    finally show ?thesis .
  qed
  ultimately show "\<bar>of_int m * pow2 e - q\<bar> \<le> pow2 e / 2" by simp
qed


lemma overflow_test:
  assumes "q \<noteq> 0"
    and "e = max (ilog2 \<bar>q\<bar> - 52) (- 1074)"
    and "m = round_half_even (q / pow2 e)"
  shows "(971 < e \<or> (e = 971 \<and> 2 ^ 53 \<le> \<bar>m\<bar>)) = (2 ^ 1024 \<le> \<bar>of_int m * pow2 e\<bar>)"
proof -
  have pe: "0 < pow2 e" by (rule pow2_pos)
  have am: "\<bar>of_int m * pow2 e\<bar> = of_int \<bar>m\<bar> * pow2 e"
    by (simp only: abs_mult abs_of_pos [OF pe] of_int_abs)
  have hi: "\<bar>m\<bar> \<le> 2 ^ 53"
    by (rule significand_bounds(1) [OF assms])
  have top: "(2 :: rat) ^ 1024 = 2 ^ 53 * pow2 971"
    using pow2_add [of 53 971] pow2_nat [of 53] pow2_nat [of 1024] by simp
  show ?thesis
  proof (cases "971 < e")
    case True
    then have "2 ^ 52 \<le> \<bar>m\<bar>"
      using significand_bounds(2) [OF assms] by simp
    then have a: "(2 :: rat) ^ 52 \<le> of_int \<bar>m\<bar>"
      by (metis of_int_le_iff of_int_numeral of_int_power)
    have b: "pow2 972 \<le> pow2 e"
      by (rule pow2_mono) (use True in simp)
    have "(2 :: rat) ^ 1024 = 2 ^ 52 * pow2 972"
      using pow2_add [of 52 972] pow2_nat [of 52] pow2_nat [of 1024] by simp
    also have "\<dots> \<le> of_int \<bar>m\<bar> * pow2 e"
      by (rule mult_mono [OF a b]) (simp_all add: pow2_pos less_imp_le)
    finally show ?thesis using True by (simp only: am) simp
  next
    case False
    show ?thesis
    proof (cases "e = 971")
      case True
      have "(971 < e \<or> (e = 971 \<and> 2 ^ 53 \<le> \<bar>m\<bar>)) = (2 ^ 53 \<le> \<bar>m\<bar>)"
        using True by simp
      also have "\<dots> = ((2 :: rat) ^ 53 \<le> of_int \<bar>m\<bar>)"
        by (metis of_int_le_iff of_int_numeral of_int_power)
      also have "\<dots> = (2 ^ 53 * pow2 971 \<le> of_int \<bar>m\<bar> * pow2 971)"
        using pow2_pos [of 971] by (simp only: mult_le_cancel_right) simp
      also have "\<dots> = (2 ^ 1024 \<le> \<bar>of_int m * pow2 e\<bar>)"
        by (simp only: am top) (simp only: True)
      finally show ?thesis .
    next
      case F: False
      with False have lt: "e \<le> 970" by simp
      have a: "of_int \<bar>m\<bar> \<le> (2 :: rat) ^ 53"
        using hi by (metis of_int_le_iff of_int_numeral of_int_power)
      have b: "pow2 e \<le> pow2 970"
        by (rule pow2_mono [OF lt])
      have "of_int \<bar>m\<bar> * pow2 e \<le> 2 ^ 53 * pow2 970"
        by (rule mult_mono [OF a b]) (simp_all add: pow2_pos less_imp_le)
      also have "\<dots> = 2 ^ 1023"
        using pow2_add [of 53 970] pow2_nat [of 53] pow2_nat [of 1023] by simp
      also have "\<dots> < (2 :: rat) ^ 1024"
        by (rule power_strict_increasing) simp_all
      finally show ?thesis using False F by (simp only: am) simp
    qed
  qed
qed

text \<open>
  What \<open>rnd\<close> computes: with \<open>e\<close> the exponent of the unit in the last place and \<open>m\<close> the
  significand, \<open>m * 2 ^ e\<close> is within half a unit of \<open>q\<close>, \<open>m\<close> has at most 53 bits, and
  the result is an infinity exactly when \<open>m * 2 ^ e\<close> reaches \<open>2 ^ 1024\<close>.
\<close>

lemma rnd_spec:
  assumes "q \<noteq> 0"
    and "e = max (ilog2 \<bar>q\<bar> - 52) (- 1074)"
    and "m = round_half_even (q / pow2 e)"
  shows "rnd q = (if 2 ^ 1024 \<le> \<bar>of_int m * pow2 e\<bar> then (if q < 0 then NInf else PInf)
                  else Fin (of_int m * pow2 e))"
    and "\<bar>of_int m * pow2 e - q\<bar> \<le> pow2 e / 2"
    and "\<bar>m\<bar> \<le> 2 ^ 53"
proof -
  have "rnd q = (if 971 < e \<or> (e = 971 \<and> 2 ^ 53 \<le> \<bar>m\<bar>) then (if q < 0 then NInf else PInf)
                 else Fin (of_int m * pow2 e))"
    unfolding rnd_def Let_def assms(3) assms(2) using assms(1) by simp
  then show "rnd q = (if 2 ^ 1024 \<le> \<bar>of_int m * pow2 e\<bar> then (if q < 0 then NInf else PInf)
                  else Fin (of_int m * pow2 e))"
    by (simp only: overflow_test [OF assms])
  show "\<bar>of_int m * pow2 e - q\<bar> \<le> pow2 e / 2"
    by (rule significand_bounds(3) [OF assms])
  show "\<bar>m\<bar> \<le> 2 ^ 53"
    by (rule significand_bounds(1) [OF assms])
qed

text \<open>Some known floats: \<open>0.1\<close>, \<open>1/3\<close>, and ties between neighbours going to the even one.\<close>

lemma rnd_tenth: "rnd (1 / 10) = Fin (3602879701896397 / 2 ^ 55)"
  by code_simp

lemma rnd_third: "rnd (1 / 3) = Fin (6004799503160661 / 2 ^ 54)"
  by code_simp

lemma rnd_tie_down: "rnd (2 ^ 53 + 1) = Fin (2 ^ 53)"
  by code_simp

lemma rnd_tie_up: "rnd (2 ^ 53 + 3) = Fin (2 ^ 53 + 4)"
  by code_simp

text \<open>The format \<open>.2f\<close> on ties, on a small negative value and on the float \<open>2.675\<close>.\<close>

lemma format_2f_known:
  "format_2f (Fin (1 / 8)) = ''0.12''"
  "format_2f (Fin (3 / 8)) = ''0.38''"
  "format_2f (Fin (- 1 / 1000)) = ''-0.00''"
  "format_2f (Fin (3011782250804019 / 2 ^ 50)) = ''2.67''"
  by code_simp+

section \<open>Facts about the operators\<close>

lemma atol_pos: "0 < atol"
  by (simp add: atol_def)

text \<open>\<open>atol\<close> is the float nearest to \<open>1e-8\<close>.\<close>

lemma atol_is_1e_8: "rnd (1 / 10 ^ 8) = Fin atol"
  by code_simp

lemma rnd_1: "rnd 1 = Fin 1"
  by code_simp

lemma rnd_100: "rnd 100 = Fin 100"
  by code_simp

lemma int_to_float_1: "int_to_float 1 = Inr (Fin 1)"
  by code_simp

lemma fgt_Fin_mono: "\<not> fgt x (Fin a) \<Longrightarrow> a \<le> b \<Longrightarrow> \<not> fgt x (Fin b)"
  by (cases x) auto

lemma py_gt_mono: "py_gt v (Fin a) = Inr False \<Longrightarrow> a \<le> b \<Longrightarrow> py_gt v (Fin b) = Inr False"
  by (cases v) (auto dest: fgt_Fin_mono)

lemma iloc_first: "iloc (x # xs) 0 = Inr x"
  by (simp add: iloc_def)

lemma iloc_last: "iloc (x # xs) (- 1) = Inr (last (x # xs))"
proof -
  have "(x # xs) ! (length (x # xs) - nat 1) = last (x # xs)"
    by (simp add: last_conv_nth del: last.simps)
  then show ?thesis
    by (simp add: iloc_def del: last.simps)
qed

lemma as_float_num: "as_float v = Inr x \<Longrightarrow> is_num v"
  by (cases v) auto

lemma not_close_nonzero:
  assumes "notna_and_not_close v = Inr True"
  shows "v \<noteq> PyInt 0 \<and> v \<noteq> PyFloat (Fin 0)"
  using assms atol_pos by (auto simp: notna_and_not_close_def split: if_splits)

section \<open>Market capitalisation text\<close>

lemma scaled_num:
  assumes "as_float v = Inr x" and "unit \<noteq> 0"
  shows "scaled v unit suffix = Inr (format_2f (fdiv x (Fin unit)) @ suffix)"
  using assms by (cases v) (auto simp: scaled_def)

text \<open>
  Claim C1. \<open>format_mcap\<close> chooses the suffix by the strict comparisons \<open>val > 1e12\<close>,
  \<open>val > 1e9\<close>, \<open>val > 1e6\<close>, in this order. For a number \<open>v\<close> with float value \<open>x\<close>
  (a float, or an int that converts to one): above \<open>1e12\<close> the text is \<open>x / 1e12\<close> with
  two decimals and \<open>" T"\<close>; otherwise above \<open>1e9\<close> it is \<open>x / 1e9\<close> and \<open>" B"\<close>; otherwise
  above \<open>1e6\<close> it is \<open>x / 1e6\<close> and \<open>" M"\<close>. Exactly \<open>1e12\<close> is not above the first bound
  and reads \<open>1000.00 B\<close>; \<open>2.5e12\<close>, \<open>3.4e9\<close> and \<open>7.1e6\<close> read \<open>2.50 T\<close>, \<open>3.40 B\<close> and
  \<open>7.10 M\<close>.
\<close>

theorem format_mcap_thresholds:
  assumes "safe_scalar val = v" and "\<not> isna v" and "as_float v = Inr x"
  shows "(py_gt v (Fin (10 ^ 12)) = Inr True \<longrightarrow>
            format_mcap r val = Inr (format_2f (fdiv x (Fin (10 ^ 12))) @ '' T'')) \<and>
         (py_gt v (Fin (10 ^ 12)) = Inr False \<and> py_gt v (Fin (10 ^ 9)) = Inr True \<longrightarrow>
            format_mcap r val = Inr (format_2f (fdiv x (Fin (10 ^ 9))) @ '' B'')) \<and>
         (py_gt v (Fin (10 ^ 9)) = Inr False \<and> py_gt v (Fin (10 ^ 6)) = Inr True \<longrightarrow>
            format_mcap r val = Inr (format_2f (fdiv x (Fin (10 ^ 6))) @ '' M'')) \<and>
         format_mcap r (Scalar (PyFloat (Fin (10 ^ 12)))) = Inr ''1000.00 B'' \<and>
         format_mcap r (Scalar (PyFloat (Fin (25 * 10 ^ 11)))) = Inr ''2.50 T'' \<and>
         format_mcap r (Scalar (PyFloat (Fin (34 * 10 ^ 8)))) = Inr ''3.40 B'' \<and>
         format_mcap r (Scalar (PyFloat (Fin (71 * 10 ^ 5)))) = Inr ''7.10 M''"
proof -
  have T: "py_gt v (Fin (10 ^ 12)) = Inr True \<longrightarrow>
            format_mcap r val = Inr (format_2f (fdiv x (Fin (10 ^ 12))) @ '' T'')"
    using assms by (simp add: format_mcap_def scaled_num)
  have B: "py_gt v (Fin (10 ^ 12)) = Inr False \<and> py_gt v (Fin (10 ^ 9)) = Inr True \<longrightarrow>
            format_mcap r val = Inr (format_2f (fdiv x (Fin (10 ^ 9))) @ '' B'')"
    using assms by (simp add: format_mcap_def scaled_num)
  have M: "py_gt v (Fin (10 ^ 9)) = Inr False \<and> py_gt v (Fin (10 ^ 6)) = Inr True \<longrightarrow>
            format_mcap r val = Inr (format_2f (fdiv x (Fin (10 ^ 6))) @ '' M'')"
  proof (intro impI, elim conjE)
    assume g9: "py_gt v (Fin (10 ^ 9)) = Inr False" and g6: "py_gt v (Fin (10 ^ 6)) = Inr True"
    have g12: "py_gt v (Fin (10 ^ 12)) = Inr False"
      using py_gt_mono [OF g9, of "10 ^ 12"] by simp
    show "format_mcap r val = Inr (format_2f (fdiv x (Fin (10 ^ 6))) @ '' M'')"
      using assms g12 g9 g6 by (simp add: format_mcap_def scaled_num)
  qed
  have e1: "format_mcap r (Scalar (PyFloat (Fin (10 ^ 12)))) = Inr ''1000.00 B''"
    by code_simp
  have e2: "format_mcap r (Scalar (PyFloat (Fin (25 * 10 ^ 11)))) = Inr ''2.50 T''"
    by code_simp
  have e3: "format_mcap r (Scalar (PyFloat (Fin (34 * 10 ^ 8)))) = Inr ''3.40 B''"
    by code_simp
  have e4: "format_mcap r (Scalar (PyFloat (Fin (71 * 10 ^ 5)))) = Inr ''7.10 M''"
    by code_simp
  from T B M e1 e2 e3 e4 show ?thesis by blast
qed

text \<open>The three branches at an int, at the head of a list, and at the bound \<open>1e9\<close>.\<close>

theorem format_mcap_thresholds_witness:
  "format_mcap (\<lambda>q. ''float'') (Scalar (PyInt 2500000000001)) = Inr ''2.50 T'' \<and>
   format_mcap (\<lambda>q. ''float'') (Seq [PyFloat (Fin 1000000001), PyNone]) = Inr ''1.00 B'' \<and>
   format_mcap (\<lambda>q. ''float'') (Scalar (PyFloat (Fin (10 ^ 9)))) = Inr ''1000.00 M''"
proof -
  have a: "as_float (PyInt 2500000000001) = Inr (Fin 2500000000001)" by code_simp
  have b: "format_2f (fdiv (Fin 2500000000001) (Fin (10 ^ 12))) = ''2.50''" by code_simp
  have c: "format_2f (fdiv (Fin 1000000001) (Fin (10 ^ 9))) = ''1.00''" by code_simp
  have d: "format_2f (fdiv (Fin (10 ^ 9)) (Fin (10 ^ 6))) = ''1000.00''" by code_simp
  have 1: "format_mcap (\<lambda>q. ''float'') (Scalar (PyInt 2500000000001)) = Inr ''2.50 T''"
    using format_mcap_thresholds [of "Scalar (PyInt 2500000000001)" "PyInt 2500000000001"
        "Fin 2500000000001" "(\<lambda>q. ''float'')"] a b by simp
  have 2: "format_mcap (\<lambda>q. ''float'') (Seq [PyFloat (Fin 1000000001), PyNone]) = Inr ''1.00 B''"
    using format_mcap_thresholds [of "Seq [PyFloat (Fin 1000000001), PyNone]"
        "PyFloat (Fin 1000000001)" "Fin 1000000001" "(\<lambda>q. ''float'')"] c by simp
  have 3: "format_mcap (\<lambda>q. ''float'') (Scalar (PyFloat (Fin (10 ^ 9)))) = Inr ''1000.00 M''"
    using format_mcap_thresholds [of "Scalar (PyFloat (Fin (10 ^ 9)))"
        "PyFloat (Fin (10 ^ 9))" "Fin (10 ^ 9)" "(\<lambda>q. ''float'')"] d by simp
  from 1 2 3 show ?thesis by blast
qed

text \<open>
  Claim C6. A number that is not above \<open>1e6\<close> is returned as \<open>str(val)\<close>, with no
  suffix; the int \<open>500000\<close> gives \<open>500000\<close>. (The text of a float is the language's
  own: for the float \<open>500000.0\<close> the result is \<open>float_repr\<close> of it.)
\<close>

theorem format_mcap_plain:
  assumes "safe_scalar val = v" and "\<not> isna v" and "py_gt v (Fin (10 ^ 6)) = Inr False"
  shows "format_mcap r val = Inr (py_str r v) \<and>
         format_mcap r (Scalar (PyInt 500000)) = Inr ''500000''"
proof -
  have g9: "py_gt v (Fin (10 ^ 9)) = Inr False"
    using py_gt_mono [OF assms(3), of "10 ^ 9"] by simp
  have g12: "py_gt v (Fin (10 ^ 12)) = Inr False"
    using py_gt_mono [OF assms(3), of "10 ^ 12"] by simp
  have "format_mcap r val = Inr (py_str r v)"
    using assms g9 g12 by (simp add: format_mcap_def)
  moreover have "format_mcap r (Scalar (PyInt 500000)) = Inr ''500000''"
    by code_simp
  ultimately show ?thesis by simp
qed

theorem format_mcap_plain_witness:
  "format_mcap (\<lambda>q. ''float'') (Scalar (PyInt 1000000)) = Inr ''1000000'' \<and>
   format_mcap (\<lambda>q. ''float'') (Scalar (PyFloat (Fin (1999 / 2)))) = Inr ''float''"
proof -
  have s: "show_int 1000000 = ''1000000''" by code_simp
  have 1: "format_mcap (\<lambda>q. ''float'') (Scalar (PyInt 1000000)) = Inr ''1000000''"
    using format_mcap_plain [of "Scalar (PyInt 1000000)" "PyInt 1000000" "(\<lambda>q. ''float'')"] s by simp
  have 2: "format_mcap (\<lambda>q. ''float'') (Scalar (PyFloat (Fin (1999 / 2)))) = Inr ''float''"
    using format_mcap_plain [of "Scalar (PyFloat (Fin (1999 / 2)))" "PyFloat (Fin (1999 / 2))" "(\<lambda>q. ''float'')"]
    by simp
  from 1 2 show ?thesis by blast
qed

text \<open>
  Claim C8. An undefined value gives the text \<open>NA\<close>: \<open>None\<close>, not-a-number, an empty
  list or array, and a list or array that starts with either.
\<close>

theorem format_mcap_undefined:
  "format_mcap r (Scalar PyNone) = Inr ''NA'' \<and>
   format_mcap r (Scalar (PyFloat NaN)) = Inr ''NA'' \<and>
   format_mcap r (Seq []) = Inr ''NA'' \<and>
   format_mcap r (Seq (PyNone # xs)) = Inr ''NA'' \<and>
   format_mcap r (Seq (PyFloat NaN # xs)) = Inr ''NA''"
  by (simp add: format_mcap_def)

text \<open>
  Claim C10. A negative number is above none of the three bounds, so it is returned
  as \<open>str(val)\<close>: a negative float as its own text, a negative int as a minus sign and
  its digits. \<open>-2e12\<close> is not given in trillions.
\<close>

theorem format_mcap_negative:
  "(q < 0 \<longrightarrow> format_mcap r (Scalar (PyFloat (Fin q))) = Inr (r q)) \<and>
   (i < 0 \<longrightarrow> format_mcap r (Scalar (PyInt i)) = Inr (''-'' @ show_nat (- i))) \<and>
   format_mcap r (Scalar (PyFloat NInf)) = Inr ''-inf'' \<and>
   format_mcap r (Scalar (PyFloat (Fin (- 2 * 10 ^ 12)))) = Inr (r (- 2 * 10 ^ 12)) \<and>
   format_mcap r (Scalar (PyInt (- 2000000000000))) = Inr ''-2000000000000''"
proof -
  have f: "q < 0 \<longrightarrow> format_mcap r (Scalar (PyFloat (Fin q))) = Inr (r q)"
    by (simp add: format_mcap_def)
  have "i < 0 \<longrightarrow> rat_of_int i < 0" by simp
  then have n: "i < 0 \<longrightarrow> format_mcap r (Scalar (PyInt i)) = Inr (''-'' @ show_nat (- i))"
    by (auto simp add: format_mcap_def show_int_def)
  have m: "format_mcap r (Scalar (PyFloat NInf)) = Inr ''-inf''"
    by (simp add: format_mcap_def)
  have e1: "format_mcap r (Scalar (PyFloat (Fin (- 2 * 10 ^ 12)))) = Inr (r (- 2 * 10 ^ 12))"
    by (simp add: format_mcap_def)
  have e2: "format_mcap r (Scalar (PyInt (- 2000000000000))) = Inr ''-2000000000000''"
    by code_simp
  from f n m e1 e2 show ?thesis by blast
qed

theorem format_mcap_negative_witness:
  "format_mcap (\<lambda>q. ''float'') (Scalar (PyFloat (Fin (- 5 / 2)))) = Inr ''float'' \<and>
   format_mcap (\<lambda>q. ''float'') (Scalar (PyInt (- 3))) = Inr ''-3''"
proof -
  have s: "show_nat 3 = ''3''" by code_simp
  show ?thesis
    using format_mcap_negative [of "- 5 / 2" "(\<lambda>q. ''float'')" "- 3"] s by simp
qed

section \<open>Return over the window\<close>

lemma compute_returns_with_nonempty:
  assumes "\<not> df_empty df" and "getitem df ''Close'' = Inr col"
    and "dropna (series_of df col) = x # xs"
  shows "compute_returns_with dv positional df =
           (case safe_scalar_series positional x of
              Inl e \<Rightarrow> Inl e
            | Inr start_val \<Rightarrow>
               (case safe_scalar_series positional (last (x # xs)) of
                  Inl e \<Rightarrow> Inl e
                | Inr end_val \<Rightarrow>
                   (case notna_and_not_close start_val of
                      Inl e \<Rightarrow> Inl e
                    | Inr True \<Rightarrow>
                       (case return_percent (dv (is_numpy col)) end_val start_val of
                          Inl e \<Rightarrow> Inr (PyFloat NaN)
                        | Inr r \<Rightarrow> Inr r)
                    | Inr False \<Rightarrow> Inr (PyFloat NaN))))"
  using assms
  by (simp add: compute_returns_with_def iloc_first iloc_last del: last.simps cong: sum.case_cong)

lemma safe_scalar_series_value: "safe_scalar_series positional (l, v) = Inr w \<Longrightarrow> w = v"
  by (cases l) (auto split: if_splits)

lemma return_percent_numpy:
  assumes "as_float a = Inr s" and "as_float b = Inr e"
  shows "return_percent (truediv True) b a =
           Inr (PyFloat (fmul (fsub (fdiv e s) (Fin 1)) (Fin 100)))"
  using assms as_float_num [OF assms(1)] as_float_num [OF assms(2)]
  by (simp add: return_percent_def truediv_def np_truediv_def int_to_float_1)

lemma compute_returns_numpy:
  assumes "\<not> df_empty df" and "getitem df ''Close'' = Inr col" and "is_numpy col"
    and "dropna (series_of df col) = series" and "series \<noteq> []"
    and "hd series = (l0, a)" and "last series = (l1, b)"
    and "safe_scalar_series positional (l0, a) = Inr a"
    and "safe_scalar_series positional (l1, b) = Inr b"
    and "as_float a = Inr s" and "as_float b = Inr e"
    and "np_isclose_zero a = Inr False"
  shows "compute_returns positional df =
           Inr (PyFloat (fmul (fsub (fdiv e s) (Fin 1)) (Fin 100)))"
proof -
  from assms(5,6) obtain xs where ser: "series = (l0, a) # xs"
    by (cases series) auto
  have "(l0, a) \<in> set (dropna (series_of df col))"
    using assms(4) ser by simp
  then have nn: "notna a"
    by (simp add: dropna_def)
  have g: "notna_and_not_close a = Inr True"
    using nn assms(12) by (simp add: notna_and_not_close_def)
  have la: "last ((l0, a) # xs) = (l1, b)"
    using assms(7) ser by simp
  have "compute_returns positional df =
          (case return_percent (truediv True) b a of
             Inl e \<Rightarrow> Inr (PyFloat NaN) | Inr r \<Rightarrow> Inr r)"
    using compute_returns_with_nonempty [OF assms(1,2), of "(l0, a)" xs truediv positional]
      assms(3,4,8,9) ser g la
    by (simp add: compute_returns_def del: last.simps)
  then show ?thesis
    by (simp add: return_percent_numpy [OF assms(10,11)])
qed

text \<open>
  Claim C2, as the code has it. Take a table whose column \<open>Close\<close> is float64 or int64,
  whose closes left after the missing ones are dropped start with \<open>a\<close> and end with \<open>b\<close>,
  with \<open>a\<close> not within \<open>atol\<close> of zero, and where \<open>val[0]\<close> finds both rows (a date index
  read by position, or a row labelled 0). Then \<open>compute_returns\<close> is
  \<open>(e / s - 1) * 100\<close> in float arithmetic, \<open>s\<close> and \<open>e\<close> the float64 values of \<open>a\<close> and
  \<open>b\<close>: each of the three operations rounds. On a date index read by position the closes
  100, 110 give \<open>10 + 5 / 2 ^ 49\<close> (printed \<open>10.000000000000009\<close>) and the closes 100, 90
  give \<open>- 10 + 1 / 2 ^ 49\<close> (printed \<open>-9.999999999999998\<close>): ten per cent up and down
  only up to rounding.
\<close>

theorem compute_returns_formula:
  assumes "\<not> df_empty df" and "getitem df ''Close'' = Inr col" and "is_numpy col"
    and "dropna (series_of df col) = series" and "series \<noteq> []"
    and "hd series = (l0, a)" and "last series = (l1, b)"
    and "safe_scalar_series positional (l0, a) = Inr a"
    and "safe_scalar_series positional (l1, b) = Inr b"
    and "as_float a = Inr s" and "as_float b = Inr e"
    and "np_isclose_zero a = Inr False"
  shows "compute_returns positional df =
           Inr (PyFloat (fmul (fsub (fdiv e s) (Fin 1)) (Fin 100))) \<and>
         compute_returns True
           \<lparr>index = [DateLabel 0, DateLabel 1],
            columns = [(''Close'', Float64 [Fin 100, Fin 110])]\<rparr> =
           Inr (PyFloat (Fin (10 + 5 / 2 ^ 49))) \<and>
         compute_returns True
           \<lparr>index = [DateLabel 0, DateLabel 1],
            columns = [(''Close'', Float64 [Fin 100, Fin 90])]\<rparr> =
           Inr (PyFloat (Fin (- 10 + 1 / 2 ^ 49)))"
proof -
  have e1: "compute_returns True
           \<lparr>index = [DateLabel 0, DateLabel 1],
            columns = [(''Close'', Float64 [Fin 100, Fin 110])]\<rparr> =
           Inr (PyFloat (Fin (10 + 5 / 2 ^ 49)))"
    by code_simp
  have e2: "compute_returns True
           \<lparr>index = [DateLabel 0, DateLabel 1],
            columns = [(''Close'', Float64 [Fin 100, Fin 90])]\<rparr> =
           Inr (PyFloat (Fin (- 10 + 1 / 2 ^ 49)))"
    by code_simp
  from compute_returns_numpy [OF assms] e1 e2 show ?thesis by blast
qed

text \<open>
  A history on three dates with a second column and a missing first close, read by
  position: 80 to 100 is 25 per cent. And an int64 column on one row labelled 0.
\<close>

theorem compute_returns_formula_witness:
  "compute_returns True
     \<lparr>index = [DateLabel 1, DateLabel 2, DateLabel 3],
      columns = [(''Open'', Float64 [Fin 1, Fin 2, Fin 3]),
                 (''Close'', Float64 [NaN, Fin 80, Fin 100])]\<rparr> =
     Inr (PyFloat (Fin 25)) \<and>
   compute_returns False
     \<lparr>index = [IntLabel 0], columns = [(''Close'', Int64 [7])]\<rparr> = Inr (PyFloat (Fin 0))"
proof -
  let ?df = "\<lparr>index = [DateLabel 1, DateLabel 2, DateLabel 3],
              columns = [(''Open'', Float64 [Fin 1, Fin 2, Fin 3]),
                         (''Close'', Float64 [NaN, Fin 80, Fin 100])]\<rparr>"
  let ?col = "Float64 [NaN, Fin 80, Fin 100]"
  let ?ser = "[(DateLabel 2, PyFloat (Fin 80)), (DateLabel 3, PyFloat (Fin 100))]"
  have 1: "\<not> df_empty ?df" by (simp add: df_empty_def)
  have 2: "getitem ?df ''Close'' = Inr ?col" by (simp add: getitem_def)
  have 3: "is_numpy ?col" by simp
  have 4: "dropna (series_of ?df ?col) = ?ser"
    by (simp add: dropna_def series_of_def notna_def)
  have 5: "?ser \<noteq> []" by simp
  have 6: "hd ?ser = (DateLabel 2, PyFloat (Fin 80))" by simp
  have 7: "last ?ser = (DateLabel 3, PyFloat (Fin 100))" by simp
  have 8: "safe_scalar_series True (DateLabel 2, PyFloat (Fin 80)) = Inr (PyFloat (Fin 80))"
    by simp
  have 9: "safe_scalar_series True (DateLabel 3, PyFloat (Fin 100)) = Inr (PyFloat (Fin 100))"
    by simp
  have 10: "as_float (PyFloat (Fin 80)) = Inr (Fin 80)" by simp
  have 11: "as_float (PyFloat (Fin 100)) = Inr (Fin 100)" by simp
  have 12: "np_isclose_zero (PyFloat (Fin 80)) = Inr False" by (simp add: atol_def)
  have v: "fmul (fsub (fdiv (Fin 100) (Fin 80)) (Fin 1)) (Fin 100) = Fin 25" by code_simp
  have a: "compute_returns True ?df = Inr (PyFloat (Fin 25))"
    using compute_returns_formula [OF 1 2 3 4 5 6 7 8 9 10 11 12] v by simp
  let ?dg = "\<lparr>index = [IntLabel 0], columns = [(''Close'', Int64 [7])]\<rparr>"
  let ?cg = "Int64 [7]"
  let ?sg = "[(IntLabel 0, PyInt 7)]"
  have g1: "\<not> df_empty ?dg" by (simp add: df_empty_def)
  have g2: "getitem ?dg ''Close'' = Inr ?cg" by (simp add: getitem_def)
  have g3: "is_numpy ?cg" by simp
  have g4: "dropna (series_of ?dg ?cg) = ?sg"
    by (simp add: dropna_def series_of_def notna_def)
  have g5: "?sg \<noteq> []" by simp
  have g6: "hd ?sg = (IntLabel 0, PyInt 7)" by simp
  have g7: "last ?sg = (IntLabel 0, PyInt 7)" by simp
  have g8: "safe_scalar_series False (IntLabel 0, PyInt 7) = Inr (PyInt 7)" by simp
  have g10: "as_float (PyInt 7) = Inr (Fin 7)" by code_simp
  have g12: "np_isclose_zero (PyInt 7) = Inr False" by (simp add: atol_def)
  have w: "fmul (fsub (fdiv (Fin 7) (Fin 7)) (Fin 1)) (Fin 100) = Fin 0" by code_simp
  have b: "compute_returns False ?dg = Inr (PyFloat (Fin 0))"
    using compute_returns_formula [OF g1 g2 g3 g4 g5 g6 g7 g8 g8 g10 g10 g12] w by simp
  from a b show ?thesis by blast
qed

text \<open>
  Claim C2 as it is written fails. The values \<open>10.0\<close> and \<open>-10.0\<close> are not the values
  returned on a date index read by position, and on the default integer index the
  same two closes return no number: the last row is labelled 1, and \<open>val[0]\<close> raises
  KeyError before the division.
\<close>

theorem compute_returns_not_exact_counterexample:
  "compute_returns True
     \<lparr>index = [DateLabel 0, DateLabel 1],
      columns = [(''Close'', Float64 [Fin 100, Fin 110])]\<rparr> \<noteq> Inr (PyFloat (Fin 10)) \<and>
   compute_returns True
     \<lparr>index = [DateLabel 0, DateLabel 1],
      columns = [(''Close'', Float64 [Fin 100, Fin 90])]\<rparr> \<noteq> Inr (PyFloat (Fin (- 10))) \<and>
   compute_returns True
     \<lparr>index = [IntLabel 0, IntLabel 1],
      columns = [(''Close'', Float64 [Fin 100, Fin 110])]\<rparr> = Inl KeyError"
proof -
  have "compute_returns True
     \<lparr>index = [DateLabel 0, DateLabel 1],
      columns = [(''Close'', Float64 [Fin 100, Fin 110])]\<rparr> =
          Inr (PyFloat (Fin (10 + 5 / 2 ^ 49)))"
    by code_simp
  moreover have "compute_returns True
     \<lparr>index = [DateLabel 0, DateLabel 1],
      columns = [(''Close'', Float64 [Fin 100, Fin 90])]\<rparr> =
          Inr (PyFloat (Fin (- 10 + 1 / 2 ^ 49)))"
    by code_simp
  moreover have "compute_returns True
     \<lparr>index = [IntLabel 0, IntLabel 1],
      columns = [(''Close'', Float64 [Fin 100, Fin 110])]\<rparr> = Inl KeyError"
    by code_simp
  ultimately show ?thesis by simp
qed

text \<open>An int64 column divides as floats: both operands are converted first.\<close>

lemma compute_returns_int64:
  "np_truediv (PyInt 27021597764222979) (PyInt 3) = Inr (PyFloat (Fin (2 ^ 53 + 2)))"
  "py_truediv (PyInt 27021597764222979) (PyInt 3) = Inr (PyFloat (Fin (2 ^ 53)))"
  by code_simp+

text \<open>
  What holds of the paths that return not-a-number, for every division operator \<open>dv\<close>
  (so the division is not evaluated on them): the empty table, no close left, and a
  first close that \<open>val[0]\<close> finds, with the last one, and that is missing or within
  \<open>atol\<close> of zero. Where the test lets the division run, the divisor is not zero.
\<close>

lemma compute_returns_sentinel_paths:
  "df_empty df \<Longrightarrow> compute_returns_with dv positional df = Inr (PyFloat NaN)"
  "\<not> df_empty df \<Longrightarrow> getitem df ''Close'' = Inr col \<Longrightarrow> dropna (series_of df col) = [] \<Longrightarrow>
     compute_returns_with dv positional df = Inr (PyFloat NaN)"
  "\<not> df_empty df \<Longrightarrow> getitem df ''Close'' = Inr col \<Longrightarrow>
     dropna (series_of df col) = (l0, a) # xs \<Longrightarrow> last ((l0, a) # xs) = (l1, b) \<Longrightarrow>
     safe_scalar_series positional (l0, a) = Inr a \<Longrightarrow>
     safe_scalar_series positional (l1, b) = Inr b \<Longrightarrow>
     np_isclose_zero a = Inr True \<Longrightarrow>
     compute_returns_with dv positional df = Inr (PyFloat NaN)"
  "notna_and_not_close v = Inr True \<Longrightarrow> v \<noteq> PyInt 0 \<and> v \<noteq> PyFloat (Fin 0)"
proof -
  show "df_empty df \<Longrightarrow> compute_returns_with dv positional df = Inr (PyFloat NaN)"
    by (simp add: compute_returns_with_def)
  show "\<not> df_empty df \<Longrightarrow> getitem df ''Close'' = Inr col \<Longrightarrow> dropna (series_of df col) = [] \<Longrightarrow>
     compute_returns_with dv positional df = Inr (PyFloat NaN)"
    by (simp add: compute_returns_with_def)
  show "compute_returns_with dv positional df = Inr (PyFloat NaN)"
    if h: "\<not> df_empty df" "getitem df ''Close'' = Inr col"
      "dropna (series_of df col) = (l0, a) # xs"
      and la: "last ((l0, a) # xs) = (l1, b)"
      and s1: "safe_scalar_series positional (l0, a) = Inr a"
      and s2: "safe_scalar_series positional (l1, b) = Inr b"
      and z: "np_isclose_zero a = Inr True"
  proof -
    have "notna_and_not_close a = Inr False"
      using z by (simp add: notna_and_not_close_def)
    then show ?thesis
      using compute_returns_with_nonempty [OF h, of dv positional] la s1 s2
      by (simp del: last.simps)
  qed
  show "notna_and_not_close v = Inr True \<Longrightarrow> v \<noteq> PyInt 0 \<and> v \<noteq> PyFloat (Fin 0)"
    by (rule not_close_nonzero)
qed

text \<open>
  Claim C3 does not hold of the code. The closes 0, 50 on the default integer index
  do not return not-a-number: \<open>end_val = safe_scalar(series.iloc[[-1]])\<close> runs before
  the test on \<open>start_val\<close>, the last row is labelled 1, and \<open>val[0]\<close> raises KeyError,
  whatever the division operator. The same holds on a date index with pandas from 3.0
  on. Only on a date index read by position do the closes 0, 50 give not-a-number. The
  empty table and the table with no row do give not-a-number.
\<close>

theorem compute_returns_zero_start_raises:
  "compute_returns_with dv positional
     \<lparr>index = [IntLabel 0, IntLabel 1],
      columns = [(''Close'', Float64 [Fin 0, Fin 50])]\<rparr> = Inl KeyError \<and>
   compute_returns_with dv False
     \<lparr>index = [DateLabel 0, DateLabel 1],
      columns = [(''Close'', Float64 [Fin 0, Fin 50])]\<rparr> = Inl KeyError \<and>
   compute_returns_with dv True
     \<lparr>index = [DateLabel 0, DateLabel 1],
      columns = [(''Close'', Float64 [Fin 0, Fin 50])]\<rparr> = Inr (PyFloat NaN) \<and>
   compute_returns_with dv positional \<lparr>index = [], columns = []\<rparr> = Inr (PyFloat NaN) \<and>
   compute_returns_with dv positional
     \<lparr>index = [], columns = [(''Close'', Float64 [])]\<rparr> = Inr (PyFloat NaN)"
proof -
  have a: "compute_returns_with dv positional
     \<lparr>index = [IntLabel 0, IntLabel 1],
      columns = [(''Close'', Float64 [Fin 0, Fin 50])]\<rparr> = Inl KeyError"
    by (simp add: compute_returns_with_def df_empty_def getitem_def series_of_def dropna_def
        notna_def iloc_def)
  have b: "compute_returns_with dv False
     \<lparr>index = [DateLabel 0, DateLabel 1],
      columns = [(''Close'', Float64 [Fin 0, Fin 50])]\<rparr> = Inl KeyError"
    by (simp add: compute_returns_with_def df_empty_def getitem_def series_of_def dropna_def
        notna_def iloc_def)
  have c: "compute_returns_with dv True
     \<lparr>index = [DateLabel 0, DateLabel 1],
      columns = [(''Close'', Float64 [Fin 0, Fin 50])]\<rparr> = Inr (PyFloat NaN)"
    using atol_pos
    by (simp add: compute_returns_with_def df_empty_def getitem_def series_of_def dropna_def
        notna_def iloc_def notna_and_not_close_def)
  have d: "compute_returns_with dv positional \<lparr>index = [], columns = []\<rparr> = Inr (PyFloat NaN)"
    by (simp add: compute_returns_with_def df_empty_def)
  have e: "compute_returns_with dv positional
     \<lparr>index = [], columns = [(''Close'', Float64 [])]\<rparr> = Inr (PyFloat NaN)"
    by (simp add: compute_returns_with_def df_empty_def)
  from a b c d e show ?thesis by blast
qed

text \<open>
  Claim C4 does not hold of the code. \<open>try\<close> encloses the division line only. A string
  as the only close (a row labelled 0) reaches \<open>np.isclose\<close> in the test before \<open>try\<close>,
  and its TypeError leaves \<open>compute_returns\<close>; so does a string as the first of two
  closes on a date index read by position. On the default integer index the two closes
  leave earlier, with the KeyError of \<open>val[0]\<close> on the last row. The same string as the
  last close is caught, since it fails inside \<open>try\<close>. A table with rows and no column
  \<open>Close\<close> leaves with KeyError.
\<close>

theorem compute_returns_propagates:
  "compute_returns positional
     \<lparr>index = [IntLabel 0], columns = [(''Close'', Object [PyStr ''abc''])]\<rparr> =
     Inl TypeError \<and>
   compute_returns True
     \<lparr>index = [DateLabel 0, DateLabel 1],
      columns = [(''Close'', Object [PyStr ''abc'', PyFloat (Fin 110)])]\<rparr> = Inl TypeError \<and>
   compute_returns positional
     \<lparr>index = [IntLabel 0, IntLabel 1],
      columns = [(''Close'', Object [PyStr ''abc'', PyFloat (Fin 110)])]\<rparr> = Inl KeyError \<and>
   compute_returns True
     \<lparr>index = [DateLabel 0, DateLabel 1],
      columns = [(''Close'', Object [PyFloat (Fin 100), PyStr ''abc''])]\<rparr> =
     Inr (PyFloat NaN) \<and>
   compute_returns positional
     \<lparr>index = [IntLabel 0], columns = [(''Open'', Float64 [Fin 100])]\<rparr> = Inl KeyError"
proof -
  have a: "compute_returns positional
     \<lparr>index = [IntLabel 0], columns = [(''Close'', Object [PyStr ''abc''])]\<rparr> =
     Inl TypeError"
    by (simp add: compute_returns_def compute_returns_with_def df_empty_def getitem_def
        series_of_def dropna_def notna_def iloc_def notna_and_not_close_def)
  have b: "compute_returns True
     \<lparr>index = [DateLabel 0, DateLabel 1],
      columns = [(''Close'', Object [PyStr ''abc'', PyFloat (Fin 110)])]\<rparr> = Inl TypeError"
    by code_simp
  have c: "compute_returns positional
     \<lparr>index = [IntLabel 0, IntLabel 1],
      columns = [(''Close'', Object [PyStr ''abc'', PyFloat (Fin 110)])]\<rparr> = Inl KeyError"
    by (simp add: compute_returns_def compute_returns_with_def df_empty_def getitem_def
        series_of_def dropna_def notna_def iloc_def)
  have d: "compute_returns True
     \<lparr>index = [DateLabel 0, DateLabel 1],
      columns = [(''Close'', Object [PyFloat (Fin 100), PyStr ''abc''])]\<rparr> =
     Inr (PyFloat NaN)"
    by code_simp
  have e: "compute_returns positional
     \<lparr>index = [IntLabel 0], columns = [(''Open'', Float64 [Fin 100])]\<rparr> = Inl KeyError"
    by (simp add: compute_returns_def compute_returns_with_def df_empty_def getitem_def)
  from a b c d e show ?thesis by blast
qed

section \<open>The chart series\<close>

lemma notna_and_not_close_float: "\<exists>t. notna_and_not_close (PyFloat b) = Inr t"
  by (cases b) (auto simp add: notna_and_not_close_def)

text \<open>
  The relative branch once \<open>val[0]\<close> has found the first row: the base is its value,
  and the series is rescaled exactly when the base passes the test.
\<close>

lemma rebase_found:
  assumes "safe_scalar_series positional (l, PyFloat b) = Inr (PyFloat b)"
  shows "rebase positional ((l, b) # rest) =
     (case notna_and_not_close (PyFloat b) of
        Inl e \<Rightarrow> Inl e
      | Inr True \<Rightarrow> Inr (map (\<lambda>(k, v). (k, fmul (fdiv v b) (Fin 100))) ((l, b) # rest))
      | Inr False \<Rightarrow> Inr ((l, b) # rest))"
  using assms
  by (simp add: rebase_def iloc_first series_mul_def case_prod_unfold split: sum.splits bool.splits)

lemma rebase_not_found:
  assumes "safe_scalar_series positional (l, PyFloat b) = Inl e"
  shows "rebase positional ((l, b) # rest) = Inl e"
  using assms by (simp add: rebase_def iloc_first)

text \<open>
  What holds of the relative branch when \<open>val[0]\<close> finds the first row: a base that is
  not within \<open>atol\<close> of zero rescales every value \<open>v\<close> to \<open>(v / base) * 100\<close>, a finite
  one so that the series starts at 100; a base within \<open>atol\<close> of zero leaves the series
  as it is.
\<close>

lemma chart_series_relative_found:
  assumes "safe_scalar_series positional (l, PyFloat b) = Inr (PyFloat b)"
  shows "b \<noteq> NaN \<Longrightarrow> np_isclose_zero (PyFloat b) = Inr False \<Longrightarrow>
      chart_series positional ''Relative Price'' ((l, b) # rest) =
        Inr (''Relative Price (%)'',
             map (\<lambda>(k, v). (k, fmul (fdiv v b) (Fin 100))) ((l, b) # rest))"
    and "b = Fin q \<Longrightarrow> \<not> \<bar>q\<bar> \<le> atol \<Longrightarrow>
      \<exists>ys. chart_series positional ''Relative Price'' ((l, b) # rest) =
             Inr (''Relative Price (%)'', (l, Fin 100) # ys)"
    and "b = NaN \<or> np_isclose_zero (PyFloat b) = Inr True \<Longrightarrow>
      chart_series positional ''Relative Price'' ((l, b) # rest) =
        Inr (''Relative Price (%)'', (l, b) # rest)"
proof -
  note R = rebase_found [OF assms, of rest]
  show "chart_series positional ''Relative Price'' ((l, b) # rest) =
        Inr (''Relative Price (%)'',
             map (\<lambda>(k, v). (k, fmul (fdiv v b) (Fin 100))) ((l, b) # rest))"
    if "b \<noteq> NaN" "np_isclose_zero (PyFloat b) = Inr False"
  proof -
    have "notna_and_not_close (PyFloat b) = Inr True"
      using that by (cases b) (simp_all add: notna_and_not_close_def notna_def)
    then show ?thesis
      by (simp add: chart_series_def R)
  qed
  show "\<exists>ys. chart_series positional ''Relative Price'' ((l, b) # rest) =
             Inr (''Relative Price (%)'', (l, Fin 100) # ys)"
    if bq: "b = Fin q" and h: "\<not> \<bar>q\<bar> \<le> atol"
  proof -
    have "q \<noteq> 0" using h atol_pos by auto
    then have v: "fmul (fdiv b b) (Fin 100) = Fin 100"
      by (simp add: bq rnd_1 rnd_100)
    have "notna_and_not_close (PyFloat b) = Inr True"
      using h by (simp add: bq notna_and_not_close_def notna_def)
    then show ?thesis
      by (simp add: chart_series_def R v)
  qed
  show "chart_series positional ''Relative Price'' ((l, b) # rest) =
        Inr (''Relative Price (%)'', (l, b) # rest)"
    if "b = NaN \<or> np_isclose_zero (PyFloat b) = Inr True"
  proof -
    have "notna_and_not_close (PyFloat b) = Inr False"
      using that by (cases b) (auto simp add: notna_and_not_close_def notna_def)
    then show ?thesis
      by (simp add: chart_series_def R)
  qed
qed

text \<open>
  Claim C5 does not hold of the code. The base is \<open>safe_scalar(series.iloc[[0]])\<close>, and
  \<open>val[0]\<close> finds the first row of the cleaned series by its label. When a missing first
  close has been dropped on the default integer index, the first row left is labelled 1
  and \<open>val[0]\<close> raises KeyError: the closes 50, 75 after a missing one are not rescaled
  to 100, 150, the ticker gets an error box and no line. On a date index with pandas
  from 3.0 on this happens to every series. Where the first row is found the claim
  holds: 50, 75, 100 becomes 100, 150, 200 on the default index and on a date index
  read by position, and a zero first close leaves the series as it is.
\<close>

theorem chart_series_relative_lookup:
  "chart_series positional ''Relative Price'' [(IntLabel 1, Fin 50), (IntLabel 2, Fin 75)] =
     Inl KeyError \<and>
   plot_ticker plot parse positional ''Relative Price'' new_chart
     (s, \<lparr>index = [IntLabel 0, IntLabel 1, IntLabel 2],
          columns = [(''Close'', Float64 [NaN, Fin 50, Fin 75])]\<rparr>) =
     st_error s KeyError new_chart \<and>
   chart_series False ''Relative Price''
     [(DateLabel 0, Fin 50), (DateLabel 1, Fin 75), (DateLabel 2, Fin 100)] = Inl KeyError \<and>
   chart_series positional ''Relative Price''
     [(IntLabel 0, Fin 50), (IntLabel 1, Fin 75), (IntLabel 2, Fin 100)] =
     Inr (''Relative Price (%)'',
          [(IntLabel 0, Fin 100), (IntLabel 1, Fin 150), (IntLabel 2, Fin 200)]) \<and>
   chart_series True ''Relative Price''
     [(DateLabel 0, Fin 50), (DateLabel 1, Fin 75), (DateLabel 2, Fin 100)] =
     Inr (''Relative Price (%)'',
          [(DateLabel 0, Fin 100), (DateLabel 1, Fin 150), (DateLabel 2, Fin 200)]) \<and>
   chart_series positional ''Relative Price''
     [(IntLabel 0, Fin 0), (IntLabel 1, Fin 75), (IntLabel 2, Fin 100)] =
     Inr (''Relative Price (%)'',
          [(IntLabel 0, Fin 0), (IntLabel 1, Fin 75), (IntLabel 2, Fin 100)])"
proof -
  have a: "chart_series positional ''Relative Price''
             [(IntLabel 1, Fin 50), (IntLabel 2, Fin 75)] = Inl KeyError"
    by (simp add: chart_series_def rebase_not_found)
  have b: "plot_ticker plot parse positional ''Relative Price'' new_chart
     (s, \<lparr>index = [IntLabel 0, IntLabel 1, IntLabel 2],
          columns = [(''Close'', Float64 [NaN, Fin 50, Fin 75])]\<rparr>) =
     st_error s KeyError new_chart"
    by (simp add: plot_ticker_def getitem_def series_of_def to_numeric_series_def dropna_f_def a)
  have c: "chart_series False ''Relative Price''
     [(DateLabel 0, Fin 50), (DateLabel 1, Fin 75), (DateLabel 2, Fin 100)] = Inl KeyError"
    by (simp add: chart_series_def rebase_not_found)
  have v: "map (\<lambda>(k, v). (k, fmul (fdiv v (Fin 50)) (Fin 100)))
             [(k0, Fin 50), (k1, Fin 75), (k2, Fin 100)] =
           [(k0, Fin 100), (k1, Fin 150), (k2, Fin 200)]" for k0 k1 k2 :: label
  proof -
    have "fmul (fdiv (Fin 50) (Fin 50)) (Fin 100) = Fin 100"
      "fmul (fdiv (Fin 75) (Fin 50)) (Fin 100) = Fin 150"
      "fmul (fdiv (Fin 100) (Fin 50)) (Fin 100) = Fin 200"
      by code_simp+
    then show ?thesis by simp
  qed
  have n50: "np_isclose_zero (PyFloat (Fin 50)) = Inr False"
    by (simp add: atol_def)
  have d: "chart_series positional ''Relative Price''
     [(IntLabel 0, Fin 50), (IntLabel 1, Fin 75), (IntLabel 2, Fin 100)] =
     Inr (''Relative Price (%)'',
          [(IntLabel 0, Fin 100), (IntLabel 1, Fin 150), (IntLabel 2, Fin 200)])"
    using chart_series_relative_found(1) [of positional "IntLabel 0" "Fin 50"
        "[(IntLabel 1, Fin 75), (IntLabel 2, Fin 100)]"] n50 v
    by simp
  have e: "chart_series True ''Relative Price''
     [(DateLabel 0, Fin 50), (DateLabel 1, Fin 75), (DateLabel 2, Fin 100)] =
     Inr (''Relative Price (%)'',
          [(DateLabel 0, Fin 100), (DateLabel 1, Fin 150), (DateLabel 2, Fin 200)])"
    using chart_series_relative_found(1) [of True "DateLabel 0" "Fin 50"
        "[(DateLabel 1, Fin 75), (DateLabel 2, Fin 100)]"] n50 v
    by simp
  have z: "np_isclose_zero (PyFloat (Fin 0)) = Inr True"
    using atol_pos by simp
  have f: "chart_series positional ''Relative Price''
     [(IntLabel 0, Fin 0), (IntLabel 1, Fin 75), (IntLabel 2, Fin 100)] =
     Inr (''Relative Price (%)'',
          [(IntLabel 0, Fin 0), (IntLabel 1, Fin 75), (IntLabel 2, Fin 100)])"
    using chart_series_relative_found(3) [of positional "IntLabel 0" "Fin 0"
        "[(IntLabel 1, Fin 75), (IntLabel 2, Fin 100)]"] z
    by simp
  from a b c d e f show ?thesis by blast
qed

text \<open>
  Claim C9. In actual mode the cleaned series is drawn as it is: the branch returns the
  series it was given, and the closes 50, 75, 100 of a ticker are the line drawn, on
  the default index, on a date index, and after a missing first close.
\<close>

theorem chart_series_actual:
  "chart_series positional ''Actual Price'' series = Inr (''Actual Price'', series) \<and>
   lines (plot_ticker (\<lambda>s ys. None) parse positional ''Actual Price'' new_chart
            (s, \<lparr>index = [IntLabel 0, IntLabel 1, IntLabel 2],
                 columns = [(''Close'', Float64 [Fin 50, Fin 75, Fin 100])]\<rparr>)) =
     [(s, [(IntLabel 0, Fin 50), (IntLabel 1, Fin 75), (IntLabel 2, Fin 100)])] \<and>
   lines (plot_ticker (\<lambda>s ys. None) parse positional ''Actual Price'' new_chart
            (s, \<lparr>index = [DateLabel 0, DateLabel 1, DateLabel 2],
                 columns = [(''Close'', Float64 [Fin 50, Fin 75, Fin 100])]\<rparr>)) =
     [(s, [(DateLabel 0, Fin 50), (DateLabel 1, Fin 75), (DateLabel 2, Fin 100)])] \<and>
   lines (plot_ticker (\<lambda>s ys. None) parse positional ''Actual Price'' new_chart
            (s, \<lparr>index = [IntLabel 0, IntLabel 1, IntLabel 2, IntLabel 3],
                 columns = [(''Close'', Float64 [NaN, Fin 50, Fin 75, Fin 100])]\<rparr>)) =
     [(s, [(IntLabel 1, Fin 50), (IntLabel 2, Fin 75), (IntLabel 3, Fin 100)])]"
  by (simp add: chart_series_def plot_ticker_def getitem_def series_of_def
      to_numeric_series_def dropna_f_def new_chart_def)

section \<open>The loop over the tickers\<close>

lemma plot_ticker_lines:
  "lines (plot_ticker plot parse p ct c h) =
     lines c @ lines (plot_ticker plot parse p ct new_chart h)"
  by (simp add: plot_ticker_def st_error_def new_chart_def Let_def
      split: prod.splits sum.splits option.splits)

lemma plot_ticker_errors:
  "errors (plot_ticker plot parse p ct c h) =
     errors c @ errors (plot_ticker plot parse p ct new_chart h)"
  by (simp add: plot_ticker_def st_error_def new_chart_def Let_def
      split: prod.splits sum.splits option.splits)

lemma chart_loop_lines:
  "lines (chart_loop plot parse p ct c hs) =
     lines c @ concat (map (\<lambda>h. lines (plot_ticker plot parse p ct new_chart h)) hs)"
proof (induction hs arbitrary: c)
  case Nil
  then show ?case by (simp add: chart_loop_def)
next
  case (Cons h hs)
  have "lines (chart_loop plot parse p ct c (h # hs)) =
          lines (chart_loop plot parse p ct (plot_ticker plot parse p ct c h) hs)"
    by (simp add: chart_loop_def)
  also have "\<dots> = lines (plot_ticker plot parse p ct c h) @
      concat (map (\<lambda>h. lines (plot_ticker plot parse p ct new_chart h)) hs)"
    by (rule Cons.IH)
  finally show ?case
    using plot_ticker_lines [of plot parse p ct c h] by simp
qed

lemma chart_loop_errors:
  "errors (chart_loop plot parse p ct c hs) =
     errors c @ concat (map (\<lambda>h. errors (plot_ticker plot parse p ct new_chart h)) hs)"
proof (induction hs arbitrary: c)
  case Nil
  then show ?case by (simp add: chart_loop_def)
next
  case (Cons h hs)
  have "errors (chart_loop plot parse p ct c (h # hs)) =
          errors (chart_loop plot parse p ct (plot_ticker plot parse p ct c h) hs)"
    by (simp add: chart_loop_def)
  also have "\<dots> = errors (plot_ticker plot parse p ct c h) @
      concat (map (\<lambda>h. errors (plot_ticker plot parse p ct new_chart h)) hs)"
    by (rule Cons.IH)
  finally show ?case
    using plot_ticker_errors [of plot parse p ct c h] by simp
qed

text \<open>
  Claim C7. Each ticker is handled on its own. The lines of the chart after the loop are,
  ticker by ticker and in order, the lines each ticker gives on a fresh chart, and so
  are the error boxes; after any ticker the loop goes on with the rest. One round of the
  loop ends in exactly one of these ways, none of them an exception leaving the loop:
  a table with a column \<open>Close\<close> whose cleaned series is empty changes nothing (no line,
  no error box); a table with no column \<open>Close\<close> (the empty table of a failed load is
  one) raises KeyError, which ends as an error box; an exception of the branch on the
  chart type (the KeyError of \<open>val[0]\<close> in relative mode) ends as an error box, with
  the axis label unchanged; an exception of the drawing call ends as an error box,
  after the axis label was set; a drawing call that returns adds the line.
\<close>

theorem chart_loop_independent:
  "lines (chart_loop plot parse p ct c hs) =
     lines c @ concat (map (\<lambda>h. lines (plot_ticker plot parse p ct new_chart h)) hs) \<and>
   errors (chart_loop plot parse p ct c hs) =
     errors c @ concat (map (\<lambda>h. errors (plot_ticker plot parse p ct new_chart h)) hs) \<and>
   chart_loop plot parse p ct c (hs1 @ h # hs2) =
     chart_loop plot parse p ct
       (plot_ticker plot parse p ct (chart_loop plot parse p ct c hs1) h) hs2 \<and>
   (getitem df ''Close'' = Inr col \<and>
    dropna_f (to_numeric_series parse (series_of df col)) = [] \<longrightarrow>
      plot_ticker plot parse p ct c (s, df) = c) \<and>
   (getitem df ''Close'' = Inl e \<longrightarrow>
      plot_ticker plot parse p ct c (s, df) = st_error s e c) \<and>
   plot_ticker plot parse p ct c (s, \<lparr>index = [], columns = []\<rparr>) = st_error s KeyError c \<and>
   (getitem df ''Close'' = Inr col \<and>
    dropna_f (to_numeric_series parse (series_of df col)) \<noteq> [] \<and>
    chart_series p ct (dropna_f (to_numeric_series parse (series_of df col))) = Inl e \<longrightarrow>
      plot_ticker plot parse p ct c (s, df) = st_error s e c) \<and>
   (getitem df ''Close'' = Inr col \<and>
    dropna_f (to_numeric_series parse (series_of df col)) \<noteq> [] \<and>
    chart_series p ct (dropna_f (to_numeric_series parse (series_of df col))) =
      Inr (label, ys) \<and>
    plot s ys = Some e \<longrightarrow>
      plot_ticker plot parse p ct c (s, df) = st_error s e (c\<lparr>ylabel := label\<rparr>)) \<and>
   (getitem df ''Close'' = Inr col \<and>
    dropna_f (to_numeric_series parse (series_of df col)) \<noteq> [] \<and>
    chart_series p ct (dropna_f (to_numeric_series parse (series_of df col))) =
      Inr (label, ys) \<and>
    plot s ys = None \<longrightarrow>
      plot_ticker plot parse p ct c (s, df) =
        c\<lparr>ylabel := label, lines := lines c @ [(s, ys)]\<rparr>)"
proof -
  have l: "chart_loop plot parse p ct c (hs1 @ h # hs2) =
     chart_loop plot parse p ct
       (plot_ticker plot parse p ct (chart_loop plot parse p ct c hs1) h) hs2"
    by (simp add: chart_loop_def)
  have k: "getitem df ''Close'' = Inr col \<and>
    dropna_f (to_numeric_series parse (series_of df col)) = [] \<longrightarrow>
      plot_ticker plot parse p ct c (s, df) = c"
    by (simp add: plot_ticker_def)
  have m: "getitem df ''Close'' = Inl e \<longrightarrow>
      plot_ticker plot parse p ct c (s, df) = st_error s e c"
    by (simp add: plot_ticker_def)
  have f: "plot_ticker plot parse p ct c (s, \<lparr>index = [], columns = []\<rparr>) =
      st_error s KeyError c"
    by (simp add: plot_ticker_def getitem_def)
  have n: "getitem df ''Close'' = Inr col \<and>
    dropna_f (to_numeric_series parse (series_of df col)) \<noteq> [] \<and>
    chart_series p ct (dropna_f (to_numeric_series parse (series_of df col))) = Inl e \<longrightarrow>
      plot_ticker plot parse p ct c (s, df) = st_error s e c"
    by (simp add: plot_ticker_def)
  have r: "getitem df ''Close'' = Inr col \<and>
    dropna_f (to_numeric_series parse (series_of df col)) \<noteq> [] \<and>
    chart_series p ct (dropna_f (to_numeric_series parse (series_of df col))) =
      Inr (label, ys) \<and>
    plot s ys = Some e \<longrightarrow>
      plot_ticker plot parse p ct c (s, df) = st_error s e (c\<lparr>ylabel := label\<rparr>)"
    by (simp add: plot_ticker_def)
  have q: "getitem df ''Close'' = Inr col \<and>
    dropna_f (to_numeric_series parse (series_of df col)) \<noteq> [] \<and>
    chart_series p ct (dropna_f (to_numeric_series parse (series_of df col))) =
      Inr (label, ys) \<and>
    plot s ys = None \<longrightarrow>
      plot_ticker plot parse p ct c (s, df) =
        c\<lparr>ylabel := label, lines := lines c @ [(s, ys)]\<rparr>"
    by (simp add: plot_ticker_def)
  from chart_loop_lines [of plot parse p ct c hs] chart_loop_errors [of plot parse p ct c hs]
    l k m f n r q
  show ?thesis by blast
qed

text \<open>
  Six tickers in relative mode, dates read by position. \<open>A\<close> is drawn from 100; the
  table of \<open>B\<close> is the empty one of a failed load; \<open>C\<close> has only missing closes; the
  drawing of \<open>D\<close> raises; the first close of \<open>E\<close> is missing on the default index, so
  \<open>val[0]\<close> raises; \<open>F\<close> after them is drawn.
\<close>

theorem chart_loop_independent_witness:
  "plot_ticker (\<lambda>s ys. if s = ''D'' then Some ValueError else None) (\<lambda>s. None) True
     ''Relative Price'' new_chart
     (''C'', \<lparr>index = [DateLabel 0, DateLabel 1],
              columns = [(''Close'', Object [PyNone, PyStr ''x''])]\<rparr>) = new_chart \<and>
   plot_ticker (\<lambda>s ys. if s = ''D'' then Some ValueError else None) (\<lambda>s. None) True
     ''Relative Price'' new_chart (''B'', \<lparr>index = [], columns = []\<rparr>) =
     st_error ''B'' KeyError new_chart \<and>
   plot_ticker (\<lambda>s ys. if s = ''D'' then Some ValueError else None) (\<lambda>s. None) True
     ''Relative Price'' new_chart
     (''E'', \<lparr>index = [IntLabel 0, IntLabel 1, IntLabel 2],
              columns = [(''Close'', Float64 [NaN, Fin 50, Fin 75])]\<rparr>) =
     st_error ''E'' KeyError new_chart \<and>
   plot_ticker (\<lambda>s ys. if s = ''D'' then Some ValueError else None) (\<lambda>s. None) True
     ''Relative Price'' new_chart
     (''D'', \<lparr>index = [DateLabel 0], columns = [(''Close'', Float64 [Fin 2])]\<rparr>) =
     st_error ''D'' ValueError (new_chart\<lparr>ylabel := ''Relative Price (%)''\<rparr>) \<and>
   plot_ticker (\<lambda>s ys. if s = ''D'' then Some ValueError else None) (\<lambda>s. None) True
     ''Relative Price'' new_chart
     (''A'', \<lparr>index = [IntLabel 0, IntLabel 1],
              columns = [(''Close'', Float64 [Fin 50, Fin 75])]\<rparr>) =
     new_chart\<lparr>ylabel := ''Relative Price (%)'',
       lines := lines new_chart @ [(''A'', [(IntLabel 0, Fin 100), (IntLabel 1, Fin 150)])]\<rparr> \<and>
   lines (chart_loop (\<lambda>s ys. if s = ''D'' then Some ValueError else None) (\<lambda>s. None) True
            ''Relative Price'' new_chart
            [(''A'', \<lparr>index = [IntLabel 0, IntLabel 1],
                     columns = [(''Close'', Float64 [Fin 50, Fin 75])]\<rparr>),
             (''B'', \<lparr>index = [], columns = []\<rparr>),
             (''C'', \<lparr>index = [DateLabel 0, DateLabel 1],
                     columns = [(''Close'', Object [PyNone, PyStr ''x''])]\<rparr>),
             (''D'', \<lparr>index = [DateLabel 0], columns = [(''Close'', Float64 [Fin 2])]\<rparr>),
             (''E'', \<lparr>index = [IntLabel 0, IntLabel 1, IntLabel 2],
                     columns = [(''Close'', Float64 [NaN, Fin 50, Fin 75])]\<rparr>),
             (''F'', \<lparr>index = [DateLabel 0], columns = [(''Close'', Float64 [Fin 7])]\<rparr>)]) =
     [(''A'', [(IntLabel 0, Fin 100), (IntLabel 1, Fin 150)]), (''F'', [(DateLabel 0, Fin 100)])] \<and>
   errors (chart_loop (\<lambda>s ys. if s = ''D'' then Some ValueError else None) (\<lambda>s. None) True
            ''Relative Price'' new_chart
            [(''A'', \<lparr>index = [IntLabel 0, IntLabel 1],
                     columns = [(''Close'', Float64 [Fin 50, Fin 75])]\<rparr>),
             (''B'', \<lparr>index = [], columns = []\<rparr>),
             (''C'', \<lparr>index = [DateLabel 0, DateLabel 1],
                     columns = [(''Close'', Object [PyNone, PyStr ''x''])]\<rparr>),
             (''D'', \<lparr>index = [DateLabel 0], columns = [(''Close'', Float64 [Fin 2])]\<rparr>),
             (''E'', \<lparr>index = [IntLabel 0, IntLabel 1, IntLabel 2],
                     columns = [(''Close'', Float64 [NaN, Fin 50, Fin 75])]\<rparr>),
             (''F'', \<lparr>index = [DateLabel 0], columns = [(''Close'', Float64 [Fin 7])]\<rparr>)]) =
     [(''B'', KeyError), (''D'', ValueError), (''E'', KeyError)]"
proof -
  let ?plot = "\<lambda>(s :: string) (ys :: f64 series). if s = ''D'' then Some ValueError else None"
  let ?parse = "\<lambda>s :: string. None :: f64 option"
  let ?A = "\<lparr>index = [IntLabel 0, IntLabel 1],
             columns = [(''Close'', Float64 [Fin 50, Fin 75])]\<rparr>"
  let ?B = "\<lparr>index = [], columns = []\<rparr> :: dataframe"
  let ?C = "\<lparr>index = [DateLabel 0, DateLabel 1],
             columns = [(''Close'', Object [PyNone, PyStr ''x''])]\<rparr>"
  let ?D = "\<lparr>index = [DateLabel 0], columns = [(''Close'', Float64 [Fin 2])]\<rparr>"
  let ?E = "\<lparr>index = [IntLabel 0, IntLabel 1, IntLabel 2],
             columns = [(''Close'', Float64 [NaN, Fin 50, Fin 75])]\<rparr>"
  let ?F = "\<lparr>index = [DateLabel 0], columns = [(''Close'', Float64 [Fin 7])]\<rparr>"
  let ?hs = "[(''A'', ?A), (''B'', ?B), (''C'', ?C), (''D'', ?D), (''E'', ?E), (''F'', ?F)]"
  have v: "fmul (fdiv (Fin 50) (Fin 50)) (Fin 100) = Fin 100"
    "fmul (fdiv (Fin 75) (Fin 50)) (Fin 100) = Fin 150"
    "fmul (fdiv (Fin 2) (Fin 2)) (Fin 100) = Fin 100"
    "fmul (fdiv (Fin 7) (Fin 7)) (Fin 100) = Fin 100"
    by code_simp+
  have cA: "chart_series True ''Relative Price'' [(IntLabel 0, Fin 50), (IntLabel 1, Fin 75)] =
              Inr (''Relative Price (%)'', [(IntLabel 0, Fin 100), (IntLabel 1, Fin 150)])"
    using chart_series_relative_found(1) [of True "IntLabel 0" "Fin 50" "[(IntLabel 1, Fin 75)]"] v
    by (simp add: atol_def)
  have cD: "chart_series True ''Relative Price'' [(DateLabel 0, Fin 2)] =
              Inr (''Relative Price (%)'', [(DateLabel 0, Fin 100)])"
    using chart_series_relative_found(1) [of True "DateLabel 0" "Fin 2" "[]"] v
    by (simp add: atol_def)
  have cF: "chart_series True ''Relative Price'' [(DateLabel 0, Fin 7)] =
              Inr (''Relative Price (%)'', [(DateLabel 0, Fin 100)])"
    using chart_series_relative_found(1) [of True "DateLabel 0" "Fin 7" "[]"] v
    by (simp add: atol_def)
  have cE: "chart_series True ''Relative Price'' [(IntLabel 1, Fin 50), (IntLabel 2, Fin 75)] =
              Inl KeyError"
    by (simp add: chart_series_def rebase_not_found)
  have hC: "getitem ?C ''Close'' = Inr (Object [PyNone, PyStr ''x'']) \<and>
            dropna_f (to_numeric_series ?parse (series_of ?C (Object [PyNone, PyStr ''x'']))) = []"
    by (simp add: getitem_def series_of_def to_numeric_series_def dropna_f_def)
  have hB: "getitem ?B ''Close'' = Inl KeyError"
    by (simp add: getitem_def)
  have hE: "getitem ?E ''Close'' = Inr (Float64 [NaN, Fin 50, Fin 75]) \<and>
            dropna_f (to_numeric_series ?parse (series_of ?E (Float64 [NaN, Fin 50, Fin 75]))) \<noteq> [] \<and>
            chart_series True ''Relative Price''
              (dropna_f (to_numeric_series ?parse (series_of ?E (Float64 [NaN, Fin 50, Fin 75])))) =
              Inl KeyError"
    by (simp add: getitem_def series_of_def to_numeric_series_def dropna_f_def cE)
  have hD: "getitem ?D ''Close'' = Inr (Float64 [Fin 2]) \<and>
            dropna_f (to_numeric_series ?parse (series_of ?D (Float64 [Fin 2]))) \<noteq> [] \<and>
            chart_series True ''Relative Price''
              (dropna_f (to_numeric_series ?parse (series_of ?D (Float64 [Fin 2])))) =
              Inr (''Relative Price (%)'', [(DateLabel 0, Fin 100)]) \<and>
            ?plot ''D'' [(DateLabel 0, Fin 100)] = Some ValueError"
    by (simp add: getitem_def series_of_def to_numeric_series_def dropna_f_def cD)
  have hA: "getitem ?A ''Close'' = Inr (Float64 [Fin 50, Fin 75]) \<and>
            dropna_f (to_numeric_series ?parse (series_of ?A (Float64 [Fin 50, Fin 75]))) \<noteq> [] \<and>
            chart_series True ''Relative Price''
              (dropna_f (to_numeric_series ?parse (series_of ?A (Float64 [Fin 50, Fin 75])))) =
              Inr (''Relative Price (%)'', [(IntLabel 0, Fin 100), (IntLabel 1, Fin 150)]) \<and>
            ?plot ''A'' [(IntLabel 0, Fin 100), (IntLabel 1, Fin 150)] = None"
    by (simp add: getitem_def series_of_def to_numeric_series_def dropna_f_def cA)
  from chart_loop_independent [where plot = ?plot and parse = ?parse and p = True
      and ct = "''Relative Price''" and c = new_chart and df = ?C
      and col = "Object [PyNone, PyStr ''x'']" and s = "''C''"] hC
  have 1: "plot_ticker ?plot ?parse True ''Relative Price'' new_chart (''C'', ?C) = new_chart"
    by blast
  from chart_loop_independent [where plot = ?plot and parse = ?parse and p = True
      and ct = "''Relative Price''" and c = new_chart and df = ?B and s = "''B''"
      and e = KeyError] hB
  have 2: "plot_ticker ?plot ?parse True ''Relative Price'' new_chart (''B'', ?B) =
             st_error ''B'' KeyError new_chart"
    by blast
  from chart_loop_independent [where plot = ?plot and parse = ?parse and p = True
      and ct = "''Relative Price''" and c = new_chart and df = ?E
      and col = "Float64 [NaN, Fin 50, Fin 75]" and s = "''E''" and e = KeyError] hE
  have 3: "plot_ticker ?plot ?parse True ''Relative Price'' new_chart (''E'', ?E) =
             st_error ''E'' KeyError new_chart"
    by blast
  from chart_loop_independent [where plot = ?plot and parse = ?parse and p = True
      and ct = "''Relative Price''" and c = new_chart and df = ?D
      and col = "Float64 [Fin 2]" and s = "''D''" and e = ValueError
      and label = "''Relative Price (%)''" and ys = "[(DateLabel 0, Fin 100)]"] hD
  have 4: "plot_ticker ?plot ?parse True ''Relative Price'' new_chart (''D'', ?D) =
             st_error ''D'' ValueError (new_chart\<lparr>ylabel := ''Relative Price (%)''\<rparr>)"
    by blast
  from chart_loop_independent [where plot = ?plot and parse = ?parse and p = True
      and ct = "''Relative Price''" and c = new_chart and df = ?A
      and col = "Float64 [Fin 50, Fin 75]" and s = "''A''"
      and label = "''Relative Price (%)''"
      and ys = "[(IntLabel 0, Fin 100), (IntLabel 1, Fin 150)]"] hA
  have 5: "plot_ticker ?plot ?parse True ''Relative Price'' new_chart (''A'', ?A) =
             new_chart\<lparr>ylabel := ''Relative Price (%)'',
               lines := lines new_chart @
                 [(''A'', [(IntLabel 0, Fin 100), (IntLabel 1, Fin 150)])]\<rparr>"
    by blast
  have pF: "plot_ticker ?plot ?parse True ''Relative Price'' new_chart (''F'', ?F) =
              new_chart\<lparr>ylabel := ''Relative Price (%)'',
                lines := lines new_chart @ [(''F'', [(DateLabel 0, Fin 100)])]\<rparr>"
    by (simp add: plot_ticker_def getitem_def series_of_def to_numeric_series_def dropna_f_def cF)
  have ev: "concat (map (\<lambda>h. lines (plot_ticker ?plot ?parse True ''Relative Price'' new_chart h))
                      ?hs) =
              [(''A'', [(IntLabel 0, Fin 100), (IntLabel 1, Fin 150)]),
               (''F'', [(DateLabel 0, Fin 100)])] \<and>
            concat (map (\<lambda>h. errors (plot_ticker ?plot ?parse True ''Relative Price'' new_chart h))
                      ?hs) =
              [(''B'', KeyError), (''D'', ValueError), (''E'', KeyError)]"
    apply (simp only: list.map concat.simps 1 2 3 4 5 pF)
    apply (simp add: new_chart_def st_error_def)
    done
  from chart_loop_independent [where plot = ?plot and parse = ?parse and p = True
      and ct = "''Relative Price''" and c = new_chart and hs = ?hs] ev
  have 6: "lines (chart_loop ?plot ?parse True ''Relative Price'' new_chart ?hs) =
             [(''A'', [(IntLabel 0, Fin 100), (IntLabel 1, Fin 150)]),
              (''F'', [(DateLabel 0, Fin 100)])] \<and>
           errors (chart_loop ?plot ?parse True ''Relative Price'' new_chart ?hs) =
             [(''B'', KeyError), (''D'', ValueError), (''E'', KeyError)]"
    by (simp add: new_chart_def)
  from 1 2 3 4 5 6 show ?thesis by blast
qed

end
